theory Spec2Isabelle
  imports Complex_Main "HOL-Library.AList"
begin

section \<open>Python strings\<close>

text \<open>
  A Python \<open>str\<close> is a sequence of Unicode code points. The messages of
  \<open>server.py\<close> hold code points beyond Latin-1 (U+2705, U+274C) and \<open>str.strip\<close>
  removes Unicode white space, so a string is a list of code points here, not a list of
  8-bit characters. \<open>ascii\<close> embeds an ASCII literal.
\<close>

type_synonym pystr = "nat list"

definition ascii :: "string \<Rightarrow> pystr" where
  "ascii = map of_char"

definition comma :: nat where "comma = 44"
definition equals :: nat where "equals = 61"

text \<open>\<open>str.isspace\<close> for one code point (CPython's \<open>_PyUnicode_IsWhitespace\<close>).\<close>

definition isspace :: "nat \<Rightarrow> bool" where
  "isspace c = ((9 \<le> c \<and> c \<le> 13) \<or> (28 \<le> c \<and> c \<le> 32) \<or> c = 133 \<or> c = 160
      \<or> c = 5760 \<or> (8192 \<le> c \<and> c \<le> 8202) \<or> c = 8232 \<or> c = 8233 \<or> c = 8239
      \<or> c = 8287 \<or> c = 12288)"

text \<open>\<open>s.strip()\<close>: leading and trailing white space removed.\<close>

definition strip :: "pystr \<Rightarrow> pystr" where
  "strip s = rev (dropWhile isspace (rev (dropWhile isspace s)))"

text \<open>\<open>s.split(c)\<close> for a one-character separator: never empty, \<open>''.split(',') = ['']\<close>.\<close>

fun split_on :: "nat \<Rightarrow> pystr \<Rightarrow> pystr list" where
  "split_on c [] = [[]]"
| "split_on c (x # xs) =
     (if x = c then [] # split_on c xs
      else (case split_on c xs of [] \<Rightarrow> [[x]] | w # ws \<Rightarrow> (x # w) # ws))"

text \<open>\<open>s.split(c, 1)\<close>: at most one split, at the first occurrence of the separator.\<close>

definition split_max1 :: "nat \<Rightarrow> pystr \<Rightarrow> pystr list" where
  "split_max1 c s =
     (case dropWhile (\<lambda>x. x \<noteq> c) s of
        [] \<Rightarrow> [s]
      | _ # r \<Rightarrow> [takeWhile (\<lambda>x. x \<noteq> c) s, r])"

text \<open>\<open>sep.join(xs)\<close>.\<close>

fun join :: "pystr \<Rightarrow> pystr list \<Rightarrow> pystr" where
  "join sep [] = []"
| "join sep [x] = x"
| "join sep (x # y # ys) = x @ sep @ join sep (y # ys)"

text \<open>\<open>str(n)\<close> for a natural number.\<close>

fun str_nat :: "nat \<Rightarrow> pystr" where
  "str_nat n = (if n < 10 then [48 + n] else str_nat (n div 10) @ [48 + n mod 10])"

declare str_nat.simps [simp del]

section \<open>Exceptions\<close>

text \<open>
  An exception is its class name and \<open>str(e)\<close>. \<open>except Exception\<close> catches the instances
  of \<open>Exception\<close> and its subclasses only: \<open>SystemExit\<close>, \<open>KeyboardInterrupt\<close> and
  \<open>GeneratorExit\<close> derive from \<open>BaseException\<close> directly and pass through such a handler.
\<close>

datatype exc =
    Exception string pystr
  | BaseException string pystr

fun str_exc :: "exc \<Rightarrow> pystr" where
  "str_exc (Exception c t) = t"
| "str_exc (BaseException c t) = t"


text \<open>
  \<open>a, b = xs\<close>: unpacking a list into exactly two names. The texts are those of CPython
  up to 3.13; later versions add the length to the second one.
\<close>

fun unpack2 :: "pystr list \<Rightarrow> exc + (pystr \<times> pystr)" where
  "unpack2 [a, b] = Inr (a, b)"
| "unpack2 xs =
     Inl (Exception ''ValueError''
       (if length xs < 2
        then ascii ''not enough values to unpack (expected 2, got '' @ str_nat (length xs) @ ascii '')''
        else ascii ''too many values to unpack (expected 2)''))"

section \<open>Quantities, values and dictionaries\<close>

text \<open>
  A magnitude is a Python \<open>int\<close> (unbounded) or a finite \<open>float\<close>, the latter given by
  the exact rational value of the double. No arithmetic on magnitudes is done by
  \<open>server.py\<close> itself; it only converts them with \<open>float()\<close>.
\<close>

datatype magnitude = PyInt int | PyFloat rat

function bit_length :: "int \<Rightarrow> nat" where
  "bit_length n = (if n \<le> 0 then 0 else Suc (bit_length (n div 2)))"
  by pat_completeness auto
termination
  by (relation "measure nat") auto

declare bit_length.simps [simp del]

text \<open>
  \<open>float(n)\<close> for an \<open>int\<close>: the nearest double, ties to even, and \<open>OverflowError\<close> when
  the rounded value does not fit. The subtraction \<open>bit_length a - 53\<close> is on \<open>nat\<close>: it is 0
  for the integers that a double holds exactly.
\<close>

definition float_of_int :: "int \<Rightarrow> exc + rat" where
  "float_of_int n =
     (let a = \<bar>n\<bar>;
          e = bit_length a - 53;
          q = a div 2 ^ e;
          r = a mod 2 ^ e;
          q' = (if 2 * r > 2 ^ e \<or> (2 * r = 2 ^ e \<and> odd q) then q + 1 else q);
          v = q' * 2 ^ e
      in if v \<ge> 2 ^ 1024
         then Inl (Exception ''OverflowError'' (ascii ''int too large to convert to float''))
         else Inr (of_int (sgn n * v)))"

fun py_float :: "magnitude \<Rightarrow> exc + rat" where
  "py_float (PyInt n) = float_of_int n"
| "py_float (PyFloat f) = Inr f"

text \<open>
  The objects an evaluation returns, as far as this model represents them: a pint
  \<open>Quantity\<close> (magnitude and units), a bare number, a string, a module and a built-in
  function. \<open>'u\<close> is pint's container of units. Objects with an attribute lookup of
  their own (classes, the unit registry, pint's \<open>Unit\<close>) are not represented as results.
\<close>

datatype 'u "value" =
    VQuantity magnitude 'u
  | VNumber magnitude
  | VStr pystr
  | VModule pystr
  | VFunction pystr

text \<open>
  The \<open>AttributeError\<close> of \<open>v.a\<close> where \<open>v\<close> has no attribute \<open>a\<close>: Python names the
  class of an ordinary object and the name of a module.
\<close>

fun no_attribute :: "'u value \<Rightarrow> string \<Rightarrow> exc" where
  "no_attribute (VModule n) a =
     Exception ''AttributeError''
       (ascii ''module '' @ [39] @ n @ [39] @ ascii '' has no attribute '' @ [39] @ ascii a @ [39])"
| "no_attribute v a =
     Exception ''AttributeError''
       ([39]
        @ (case v of
             VNumber (PyInt n) \<Rightarrow> ascii ''int''
           | VNumber (PyFloat f) \<Rightarrow> ascii ''float''
           | VStr s \<Rightarrow> ascii ''str''
           | VFunction f \<Rightarrow> ascii ''builtin_function_or_method''
           | _ \<Rightarrow> ascii ''Quantity'')
        @ [39] @ ascii '' object has no attribute '' @ [39] @ ascii a @ [39])"

text \<open>\<open>v.units\<close> and \<open>v.magnitude\<close>: defined on a Quantity, \<open>AttributeError\<close> on the others.\<close>

fun get_units :: "'u value \<Rightarrow> exc + 'u" where
  "get_units (VQuantity m u) = Inr u"
| "get_units v = Inl (no_attribute v ''units'')"

fun get_magnitude :: "'u value \<Rightarrow> exc + magnitude" where
  "get_magnitude (VQuantity m u) = Inr m"
| "get_magnitude v = Inl (no_attribute v ''magnitude'')"

text \<open>
  A \<open>dict\<close> keeps its keys in insertion order; storing under an existing key keeps the
  key's place. That is \<open>AList.update\<close> on an association list.
\<close>

type_synonym 'v dict = "(pystr \<times> 'v) list"

definition dict_update :: "'v dict \<Rightarrow> 'v dict \<Rightarrow> 'v dict" where
  "dict_update d other = fold (\<lambda>(k, v). AList.update k v) other d"

text \<open>
  The two local namespaces that \<open>server.py\<close> hands to \<open>eval\<close>: a dictionary of symbols
  (line 135 and 136), and the dictionary \<open>{"Q_": Q_, "ureg": ureg}\<close> of line 114, which
  holds the \<open>Quantity\<close> class and the unit registry.
\<close>

datatype 'u namespace =
    Symbols "'u value dict"
  | QuantityAndRegistry

section \<open>The external collaborators\<close>

text \<open>
  \<open>server.py\<close> delegates to two things it does not define: pint (the unit registry
  \<open>ureg\<close>, the constructor \<open>Q_\<close>, \<open>str(q.units)\<close>, \<open>q.check\<close>) and Python's \<open>eval\<close>. They are
  parameters of the model, collected in a record, and every theorem below that does not
  name a particular instance holds for all of them.

  \<^item> \<open>parse_units s\<close> is what pint makes of a unit string, or the exception it raises;
    \<open>Q_(m, s)\<close> is the Quantity of magnitude \<open>m\<close> with these units.
  \<^item> \<open>py_eval w e ns\<close> is \<open>eval(e, {}, ns)\<close>. The empty globals receive
    \<open>__builtins__\<close>, so the evaluated text can reach the whole process: its outcome
    depends on the state \<open>w\<close> of the process and it returns the state it leaves.
  \<^item> \<open>dimensionality u\<close> is pint's reduction of units to base dimensions, and
    \<open>str_units u\<close> is \<open>str\<close> of the units.
\<close>

record ('u, 'd, 'w) pylib =
  parse_units :: "pystr \<Rightarrow> exc + 'u"
  py_eval :: "'w \<Rightarrow> pystr \<Rightarrow> 'u namespace \<Rightarrow> (exc + 'u value) \<times> 'w"
  str_units :: "'u \<Rightarrow> pystr"
  dimensionality :: "'u \<Rightarrow> 'd"

text \<open>\<open>Q_(m, s)\<close> with a number \<open>m\<close> and a string \<open>s\<close>.\<close>

definition Q_new :: "('u, 'd, 'w) pylib \<Rightarrow> magnitude \<Rightarrow> pystr \<Rightarrow> exc + 'u value" where
  "Q_new L m s = (case parse_units L s of Inl e \<Rightarrow> Inl e | Inr u \<Rightarrow> Inr (VQuantity m u))"

text \<open>
  \<open>lhs.check(rhs)\<close> in pint compares \<open>lhs.dimensionality\<close> with the dimensionality of the
  units of \<open>rhs\<close>.
\<close>

definition check :: "('u, 'd, 'w) pylib \<Rightarrow> 'u \<Rightarrow> 'u \<Rightarrow> bool" where
  "check L lu ru = (dimensionality L lu = dimensionality L ru)"

section \<open>Session configuration\<close>

text \<open>\<open>ConfigSchema\<close>, and the request context that carries it to a tool.\<close>

record session_config =
  verbose_output :: bool
  include_constants :: bool
  custom_variables :: "pystr option"

record ctx =
  session_config :: session_config

text \<open>Truth value of an \<open>Optional[str]\<close>: \<open>None\<close> and the empty string are false.\<close>

fun truthy :: "pystr option \<Rightarrow> bool" where
  "truthy None = False"
| "truthy (Some s) = (s \<noteq> [])"

section \<open>\<open>build_context\<close>\<close>

text \<open>
  The dictionary literal \<open>base_context\<close>: symbol, magnitude and unit string of every entry,
  in the order of the source. The three \<open>float\<close> magnitudes are the doubles that the
  literals \<open>6.674e-11\<close>, \<open>6.626e-34\<close> and \<open>1.602e-19\<close> denote.
\<close>

definition catalog :: "(string \<times> magnitude \<times> string) list" where
  "catalog =
    [(''F'', PyInt 1, ''newton''),
     (''m'', PyInt 1, ''kilogram''),
     (''a'', PyInt 1, ''meter/second**2''),
     (''v'', PyInt 1, ''meter/second''),
     (''u'', PyInt 1, ''meter/second''),
     (''d'', PyInt 1, ''meter''),
     (''x'', PyInt 1, ''meter''),
     (''t'', PyInt 1, ''second''),
     (''p'', PyInt 1, ''kilogram*meter/second''),
     (''E'', PyInt 1, ''joule''),
     (''W'', PyInt 1, ''joule''),
     (''KE'', PyInt 1, ''joule''),
     (''PE'', PyInt 1, ''joule''),
     (''P'', PyInt 1, ''watt''),
     (''q'', PyInt 1, ''coulomb''),
     (''V'', PyInt 1, ''volt''),
     (''I'', PyInt 1, ''ampere''),
     (''R'', PyInt 1, ''ohm''),
     (''C'', PyInt 1, ''farad''),
     (''L'', PyInt 1, ''henry''),
     (''B'', PyInt 1, ''tesla''),
     (''phi'', PyInt 1, ''weber''),
     (''T'', PyInt 1, ''kelvin''),
     (''k'', PyInt 1, ''joule/kelvin''),
     (''R_gas'', PyInt 1, ''joule/(mol*kelvin)''),
     (''n'', PyInt 1, ''mole''),
     (''p_pressure'', PyInt 1, ''pascal''),
     (''V_volume'', PyInt 1, ''meter**3''),
     (''Q_heat'', PyInt 1, ''joule''),
     (''f'', PyInt 1, ''hertz''),
     (''lambda_'', PyInt 1, ''meter''),
     (''c'', PyInt 299792458, ''meter/second''),
     (''omega'', PyInt 1, ''radian/second''),
     (''G'', PyFloat (Fract 2581878694434571 (2 ^ 85)), ''meter**3 / (kilogram * second**2)''),
     (''h'', PyFloat (Fract 3873563939581825 (2 ^ 162)), ''joule*second''),
     (''e'', PyFloat (Fract 6654447653898235 (2 ^ 115)), ''coulomb'')]"

text \<open>
  Evaluating the literal calls \<open>Q_\<close> entry by entry; this happens outside every
  \<open>try\<close>, so an exception of \<open>Q_\<close> leaves \<open>build_context\<close>.
\<close>

fun make_dict :: "('u, 'd, 'w) pylib \<Rightarrow> (string \<times> magnitude \<times> string) list
    \<Rightarrow> 'u value dict \<Rightarrow> exc + 'u value dict" where
  "make_dict L [] d = Inr d"
| "make_dict L ((k, m, s) # es) d =
     (case Q_new L m (ascii s) of
        Inl e \<Rightarrow> Inl e
      | Inr q \<Rightarrow> make_dict L es (AList.update (ascii k) q d))"

definition base_context :: "('u, 'd, 'w) pylib \<Rightarrow> exc + 'u value dict" where
  "base_context L = make_dict L catalog []"

text \<open>The namespace of the fallback evaluation: \<open>{"Q_": Q_, "ureg": ureg}\<close>.\<close>

definition custom_namespace :: "'u namespace" where
  "custom_namespace = QuantityAndRegistry"

text \<open>
  The inner \<open>try\<close> of lines 108 to 114: first \<open>Q_(1, unit_expr)\<close>; on an \<open>Exception\<close>,
  \<open>eval(unit_expr, {}, {"Q_": Q_, "ureg": ureg})\<close>.
\<close>

definition resolve :: "('u, 'd, 'w) pylib \<Rightarrow> 'w \<Rightarrow> pystr \<Rightarrow> (exc + 'u value) \<times> 'w" where
  "resolve L w unit_expr =
     (case Q_new L (PyInt 1) unit_expr of
        Inr q \<Rightarrow> (Inr q, w)
      | Inl (Exception c t) \<Rightarrow> py_eval L w unit_expr custom_namespace
      | Inl (BaseException c t) \<Rightarrow> (Inl (BaseException c t), w))"

text \<open>
  The loop of lines 102 to 114 over the terms, with the dictionary \<open>custom_vars\<close> built
  so far. An exception ends the loop.
\<close>

fun custom_loop :: "('u, 'd, 'w) pylib \<Rightarrow> 'w \<Rightarrow> pystr list \<Rightarrow> 'u value dict
    \<Rightarrow> (exc + 'u value dict) \<times> 'w" where
  "custom_loop L w [] custom_vars = (Inr custom_vars, w)"
| "custom_loop L w (var_def # rest) custom_vars =
     (if equals \<in> set var_def then
        (case unpack2 (split_max1 equals (strip var_def)) of
           Inl e \<Rightarrow> (Inl e, w)
         | Inr (var_name, unit_expr) \<Rightarrow>
             (case resolve L w (strip unit_expr) of
                (Inl e, w') \<Rightarrow> (Inl e, w')
              | (Inr q, w') \<Rightarrow> custom_loop L w' rest (AList.update (strip var_name) q custom_vars)))
      else custom_loop L w rest custom_vars)"

definition warning :: "exc \<Rightarrow> pystr" where
  "warning e = ascii ''Warning: Failed to parse custom variables: '' @ str_exc e"

text \<open>
  \<open>build_context\<close> returns the dictionary or lets an exception out, together with the
  lines it has printed and the state of the process afterwards.
\<close>

definition build_context :: "('u, 'd, 'w) pylib \<Rightarrow> 'w \<Rightarrow> session_config
    \<Rightarrow> (exc + 'u value dict) \<times> pystr list \<times> 'w" where
  "build_context L w cfg =
     (case base_context L of
        Inl e \<Rightarrow> (Inl e, [], w)
      | Inr base \<Rightarrow>
          (if truthy (custom_variables cfg) then
             (case custom_loop L w (split_on comma (the (custom_variables cfg))) [] of
                (Inr custom_vars, w') \<Rightarrow> (Inr (dict_update base custom_vars), [], w')
              | (Inl (Exception c t), w') \<Rightarrow> (Inr base, [warning (Exception c t)], w')
              | (Inl (BaseException c t), w') \<Rightarrow> (Inl (BaseException c t), [], w'))
           else (Inr base, [], w)))"

section \<open>\<open>check_equation_sanity\<close>\<close>

record verbose_info =
  lhs_expression :: pystr
  rhs_expression :: pystr
  lhs_magnitude :: rat
  rhs_magnitude :: rat

record result =
  equation :: pystr
  consistent :: bool
  lhs_units :: "pystr option"
  rhs_units :: "pystr option"
  message :: pystr
  verbose :: "verbose_info option"

definition consistent_message :: "pystr \<Rightarrow> pystr" where
  "consistent_message lu =
     [0x2705] @ ascii '' Equation is dimensionally consistent: both sides are ['' @ lu @ ascii ''].''"

definition inconsistent_message :: "pystr \<Rightarrow> pystr \<Rightarrow> pystr" where
  "inconsistent_message lu ru =
     [0x274C] @ ascii '' Equation is NOT consistent: LHS is ['' @ lu @ ascii ''] but RHS is [''
       @ ru @ ascii ''].''"

definition error_message :: "exc \<Rightarrow> pystr" where
  "error_message e = [0x274C] @ ascii '' Error while checking equation: '' @ str_exc e"

text \<open>The dictionary of the \<open>except\<close> branch, lines 168 to 174.\<close>

definition error_result :: "pystr \<Rightarrow> exc \<Rightarrow> result" where
  "error_result eqn e =
     \<lparr>equation = eqn, consistent = False, lhs_units = None, rhs_units = None,
      message = error_message e, verbose = None\<rparr>"

text \<open>Lines 158 to 164: the two \<open>float()\<close> conversions, left before right.\<close>

definition attach_verbose :: "result \<Rightarrow> pystr \<Rightarrow> pystr \<Rightarrow> magnitude \<Rightarrow> magnitude \<Rightarrow> exc + result" where
  "attach_verbose r lhs_expr rhs_expr lm rm =
     (case py_float lm of
        Inl e \<Rightarrow> Inl e
      | Inr lf \<Rightarrow>
          (case py_float rm of
             Inl e \<Rightarrow> Inl e
           | Inr rf \<Rightarrow>
               Inr (r\<lparr>verbose := Some \<lparr>lhs_expression = lhs_expr, rhs_expression = rhs_expr,
                                       lhs_magnitude = lf, rhs_magnitude = rf\<rparr>\<rparr>)))"

text \<open>Lines 138 to 166, once both sides have been evaluated.\<close>

definition compare_sides :: "('u, 'd, 'w) pylib \<Rightarrow> pystr \<Rightarrow> pystr \<Rightarrow> pystr \<Rightarrow> 'u value \<Rightarrow> 'u value
    \<Rightarrow> bool \<Rightarrow> exc + result" where
  "compare_sides L eqn lhs_expr rhs_expr lhs_val rhs_val verb =
     (case get_units lhs_val of
        Inl e \<Rightarrow> Inl e
      | Inr lu \<Rightarrow>
          (case get_units rhs_val of
             Inl e \<Rightarrow> Inl e
           | Inr ru \<Rightarrow>
               (let lhs_u = str_units L lu;
                    rhs_u = str_units L ru;
                    r = (if check L lu ru
                         then \<lparr>equation = eqn, consistent = True, lhs_units = Some lhs_u,
                               rhs_units = Some rhs_u, message = consistent_message lhs_u,
                               verbose = None\<rparr>
                         else \<lparr>equation = eqn, consistent = False, lhs_units = Some lhs_u,
                               rhs_units = Some rhs_u, message = inconsistent_message lhs_u rhs_u,
                               verbose = None\<rparr>)
                in if verb then
                     (case get_magnitude lhs_val of
                        Inl e \<Rightarrow> Inl e
                      | Inr lm \<Rightarrow>
                          (case get_magnitude rhs_val of
                             Inl e \<Rightarrow> Inl e
                           | Inr rm \<Rightarrow> attach_verbose r lhs_expr rhs_expr lm rm))
                   else Inr r)))"

text \<open>The body of the \<open>try\<close>, lines 132 to 166.\<close>

definition check_body :: "('u, 'd, 'w) pylib \<Rightarrow> 'w \<Rightarrow> pystr \<Rightarrow> 'u value dict \<Rightarrow> bool
    \<Rightarrow> (exc + result) \<times> 'w" where
  "check_body L w eqn context verb =
     (case unpack2 (split_on equals eqn) of
        Inl e \<Rightarrow> (Inl e, w)
      | Inr (lhs, rhs) \<Rightarrow>
          (case py_eval L w (strip lhs) (Symbols context) of
             (Inl e, w1) \<Rightarrow> (Inl e, w1)
           | (Inr lhs_val, w1) \<Rightarrow>
               (case py_eval L w1 (strip rhs) (Symbols context) of
                  (Inl e, w2) \<Rightarrow> (Inl e, w2)
                | (Inr rhs_val, w2) \<Rightarrow>
                    (compare_sides L eqn (strip lhs) (strip rhs) lhs_val rhs_val verb, w2))))"

text \<open>
  \<open>check_equation_sanity\<close>: the body under \<open>except Exception as e\<close>. The function
  returns a result, or lets through an exception that is not an \<open>Exception\<close>.
\<close>

definition check_equation_sanity :: "('u, 'd, 'w) pylib \<Rightarrow> 'w \<Rightarrow> pystr \<Rightarrow> 'u value dict \<Rightarrow> bool
    \<Rightarrow> (exc + result) \<times> 'w" where
  "check_equation_sanity L w eqn context verb =
     (case check_body L w eqn context verb of
        (Inr r, w') \<Rightarrow> (Inr r, w')
      | (Inl (Exception c t), w') \<Rightarrow> (Inr (error_result eqn (Exception c t)), w')
      | (Inl (BaseException c t), w') \<Rightarrow> (Inl (BaseException c t), w'))"

section \<open>\<open>add_custom_variable\<close>\<close>

text \<open>
  Lines 217 to 223: the current terms as a dictionary from name to expression text. The
  dictionary is filled in place and \<open>except Exception: pass\<close> drops an exception of the
  loop, so the dictionary then keeps what the loop had stored.
\<close>

fun current_loop :: "pystr list \<Rightarrow> pystr dict \<Rightarrow> pystr dict" where
  "current_loop [] current_vars = current_vars"
| "current_loop (var_def # rest) current_vars =
     (if equals \<in> set var_def then
        (case unpack2 (split_max1 equals (strip var_def)) of
           Inl e \<Rightarrow> current_vars
         | Inr (var_name, unit_expr) \<Rightarrow>
             current_loop rest (AList.update (strip var_name) (strip unit_expr) current_vars))
      else current_loop rest current_vars)"

definition parse_current :: "pystr option \<Rightarrow> pystr dict" where
  "parse_current cv =
     (if truthy cv then current_loop (split_on comma (the cv)) [] else [])"

definition format_item :: "pystr \<times> pystr \<Rightarrow> pystr" where
  "format_item kv = fst kv @ [equals] @ snd kv"

definition serialise :: "pystr dict \<Rightarrow> pystr" where
  "serialise d = join [comma] (map format_item d)"

definition instructions :: "pystr \<Rightarrow> pystr \<Rightarrow> pystr \<Rightarrow> pystr" where
  "instructions name unit new_custom_vars =
     [0x2705] @ ascii '' Custom variable '' @ [39] @ name @ [39] @ ascii '' with unit '' @ [39]
       @ unit @ [39] @ ascii '' added.'' @ [10, 10]
     @ ascii ''To use this variable, restart the server with:'' @ [10]
     @ ascii ''custom_variables='' @ [39] @ new_custom_vars @ [39] @ [10, 10]
     @ ascii ''Example usage in equations:'' @ [10]
     @ ascii ''- '' @ [39] @ ascii ''h = 0.5 * g * t**2'' @ [39]
       @ ascii '' (height with gravitational acceleration)'' @ [10]
     @ ascii ''- '' @ [39] @ ascii ''F = rho * A * v**2'' @ [39]
       @ ascii '' (force with density and area)''"

definition new_custom_vars :: "pystr \<Rightarrow> pystr \<Rightarrow> pystr option \<Rightarrow> pystr" where
  "new_custom_vars name unit cv = serialise (AList.update name unit (parse_current cv))"

text \<open>
  The tool reads \<open>ctx.session_config\<close> and assigns to nothing but its own locals: it
  returns its text, and the request context as it is after the call.
\<close>

definition add_custom_variable :: "pystr \<Rightarrow> pystr \<Rightarrow> ctx \<Rightarrow> pystr \<times> ctx" where
  "add_custom_variable name unit c =
     (instructions name unit (new_custom_vars name unit (custom_variables (session_config c))), c)"

section \<open>The specification's wording\<close>

text \<open>
  The specification describes a term \<open>name=expr\<close> as split on its first \<open>=\<close>, both parts
  trimmed. These definitions follow that wording; \<open>custom_loop\<close> and \<open>current_loop\<close>
  above follow the source, which trims the term before it splits.
\<close>

definition term_name :: "pystr \<Rightarrow> pystr" where
  "term_name t = strip (takeWhile (\<lambda>x. x \<noteq> equals) t)"

definition term_expr :: "pystr \<Rightarrow> pystr" where
  "term_expr t = strip (tl (dropWhile (\<lambda>x. x \<noteq> equals) t))"

text \<open>The terms of a specification string that contain \<open>=\<close>, as (name, expression).\<close>

definition spec_terms :: "pystr \<Rightarrow> (pystr \<times> pystr) list" where
  "spec_terms s =
     map (\<lambda>t. (term_name t, term_expr t)) (filter (\<lambda>t. equals \<in> set t) (split_on comma s))"

text \<open>Resolving the (name, expression) pairs in order, each stored under its name.\<close>

fun bind_terms :: "('u, 'd, 'w) pylib \<Rightarrow> 'w \<Rightarrow> (pystr \<times> pystr) list \<Rightarrow> 'u value dict
    \<Rightarrow> (exc + 'u value dict) \<times> 'w" where
  "bind_terms L w [] custom_vars = (Inr custom_vars, w)"
| "bind_terms L w ((name, expr) # rest) custom_vars =
     (case resolve L w expr of
        (Inl e, w') \<Rightarrow> (Inl e, w')
      | (Inr q, w') \<Rightarrow> bind_terms L w' rest (AList.update name q custom_vars))"

text \<open>Merging (name, expression) pairs by name, the later pair winning.\<close>

fun merge_terms :: "(pystr \<times> pystr) list \<Rightarrow> pystr dict \<Rightarrow> pystr dict" where
  "merge_terms [] d = d"
| "merge_terms ((name, expr) # rest) d = merge_terms rest (AList.update name expr d)"

text \<open>
  A (name, expression) pair that survives being written as \<open>name=expression\<close> between
  commas: no comma in either part, no \<open>=\<close> in the name, no white space around either.
\<close>

definition well_formed_item :: "pystr \<times> pystr \<Rightarrow> bool" where
  "well_formed_item kv =
     (comma \<notin> set (fst kv) \<and> equals \<notin> set (fst kv) \<and> strip (fst kv) = fst kv
        \<and> comma \<notin> set (snd kv) \<and> strip (snd kv) = snd kv)"

definition lstrip :: "pystr \<Rightarrow> pystr" where
  "lstrip s = dropWhile isspace s"

definition rstrip :: "pystr \<Rightarrow> pystr" where
  "rstrip s = rev (dropWhile isspace (rev s))"

section \<open>A reference instance of the collaborators\<close>

text \<open>
  The closed examples below need one concrete pint and one concrete \<open>eval\<close>. This
  instance covers a fragment of both and is meant to agree with them on that fragment
  only:
  \<^item> units with integer exponents, kept as pint's \<open>UnitsContainer\<close> sorted by name; the
    registry holds the units the catalogue names (and \<open>kilometer\<close>), with their
    dimensionality in pint's default registry;
  \<^item> unit strings built from names, integers, \<open>*\<close>, \<open>/\<close>, \<open>**\<close> and parentheses;
  \<^item> expressions built from integers, names, string literals, \<open>+ - * / % **\<close>, unary
    minus, parentheses, attribute access and calls with at most one argument, over
    \<open>int\<close>, Quantities and Units with \<open>int\<close> magnitudes, the modules \<open>sys\<close> and
    \<open>time\<close> through \<open>__import__\<close>, \<open>sys.exit()\<close> and \<open>time.time_ns()\<close>.
  Outside the fragment the evaluator and the unit parser answer with the exception
  \<open>unmodelled\<close>, which stands for whatever Python or pint does there (the registry of pint
  knows many more units than this one, and its parser reads more than products of
  powers). No example below depends on such an answer; two of them depend on pint
  rejecting a text that calls a function without arguments.
\<close>

subsection \<open>Units\<close>

text \<open>
  \<open>u_insert\<close> multiplies a container by one power of a unit; a zero exponent drops the
  unit. \<open>lex_less\<close> is Python's order on strings.
\<close>

type_synonym units = "(string \<times> int) list"

fun lex_less :: "pystr \<Rightarrow> pystr \<Rightarrow> bool" where
  "lex_less [] [] = False"
| "lex_less [] (y # ys) = True"
| "lex_less (x # xs) [] = False"
| "lex_less (x # xs) (y # ys) = (x < y \<or> (x = y \<and> lex_less xs ys))"

fun u_insert :: "string \<Rightarrow> int \<Rightarrow> units \<Rightarrow> units" where
  "u_insert k e [] = [(k, e)]"
| "u_insert k e ((k', e') # r) =
     (if k = k' then (if e + e' = 0 then r else (k, e + e') # r)
      else if lex_less (ascii k) (ascii k') then (k, e) # (k', e') # r
      else (k', e') # u_insert k e r)"

definition u_mul :: "units \<Rightarrow> units \<Rightarrow> units" where
  "u_mul a b = fold (\<lambda>(k, e). u_insert k e) b a"

definition u_pow :: "units \<Rightarrow> int \<Rightarrow> units" where
  "u_pow a n = (if n = 0 then [] else map (\<lambda>(k, e). (k, e * n)) a)"

definition u_div :: "units \<Rightarrow> units \<Rightarrow> units" where
  "u_div a b = u_mul a (u_pow b (- 1))"

definition registry :: "(string \<times> string \<times> units) list" where
  "registry =
    [(''meter'', ''meter'', [(''[length]'', 1)]),
     (''kilometer'', ''kilometer'', [(''[length]'', 1)]),
     (''second'', ''second'', [(''[time]'', 1)]),
     (''kilogram'', ''kilogram'', [(''[mass]'', 1)]),
     (''ampere'', ''ampere'', [(''[current]'', 1)]),
     (''kelvin'', ''kelvin'', [(''[temperature]'', 1)]),
     (''mole'', ''mole'', [(''[substance]'', 1)]),
     (''mol'', ''mole'', [(''[substance]'', 1)]),
     (''radian'', ''radian'', []),
     (''hertz'', ''hertz'', [(''[time]'', - 1)]),
     (''newton'', ''newton'', [(''[length]'', 1), (''[mass]'', 1), (''[time]'', - 2)]),
     (''joule'', ''joule'', [(''[length]'', 2), (''[mass]'', 1), (''[time]'', - 2)]),
     (''watt'', ''watt'', [(''[length]'', 2), (''[mass]'', 1), (''[time]'', - 3)]),
     (''pascal'', ''pascal'', [(''[length]'', - 1), (''[mass]'', 1), (''[time]'', - 2)]),
     (''coulomb'', ''coulomb'', [(''[current]'', 1), (''[time]'', 1)]),
     (''volt'', ''volt'', [(''[current]'', - 1), (''[length]'', 2), (''[mass]'', 1), (''[time]'', - 3)]),
     (''ohm'', ''ohm'', [(''[current]'', - 2), (''[length]'', 2), (''[mass]'', 1), (''[time]'', - 3)]),
     (''farad'', ''farad'', [(''[current]'', 2), (''[length]'', - 2), (''[mass]'', - 1), (''[time]'', 4)]),
     (''henry'', ''henry'', [(''[current]'', - 2), (''[length]'', 2), (''[mass]'', 1), (''[time]'', - 2)]),
     (''tesla'', ''tesla'', [(''[current]'', - 1), (''[mass]'', 1), (''[time]'', - 2)]),
     (''weber'', ''weber'', [(''[current]'', - 1), (''[length]'', 2), (''[mass]'', 1), (''[time]'', - 2)])]"

definition get_name :: "string \<Rightarrow> string option" where
  "get_name n = map_option fst (map_of registry n)"

definition dim_of :: "string \<Rightarrow> units" where
  "dim_of cn = (case map_of (map snd registry) cn of None \<Rightarrow> [] | Some d \<Rightarrow> d)"

definition ref_dimensionality :: "units \<Rightarrow> units" where
  "ref_dimensionality u = fold (\<lambda>(k, e) acc. u_mul acc (u_pow (dim_of k) e)) u []"

text \<open>
  \<open>str\<close> of units in pint's default format: the positive powers joined by \<open>*\<close>, then the
  negative ones each after \<open>/\<close>, in the order of the names.
\<close>

definition fmt_unit :: "string \<times> int \<Rightarrow> pystr" where
  "fmt_unit ke = (if \<bar>snd ke\<bar> = 1 then ascii (fst ke)
                  else ascii (fst ke) @ ascii '' ** '' @ str_nat (nat \<bar>snd ke\<bar>))"

definition ref_str_units :: "units \<Rightarrow> pystr" where
  "ref_str_units u =
     (let pos = map fmt_unit (filter (\<lambda>ke. snd ke > 0) u);
          neg = map fmt_unit (filter (\<lambda>ke. snd ke < 0) u)
      in if u = [] then ascii ''dimensionless''
         else if neg = [] then join (ascii '' * '') pos
         else join (ascii '' / '') ((if pos = [] then ascii ''1'' else join (ascii '' * '') pos) # neg))"

subsection \<open>Expressions\<close>

text \<open>Python's tokens, for the fragment; \<open>TOp\<close> carries the operator's character.\<close>

datatype token = TNum int | TName pystr | TStr pystr | TOp nat | TPow

definition is_digit :: "nat \<Rightarrow> bool" where
  "is_digit c = (48 \<le> c \<and> c \<le> 57)"

definition is_name_start :: "nat \<Rightarrow> bool" where
  "is_name_start c = ((65 \<le> c \<and> c \<le> 90) \<or> (97 \<le> c \<and> c \<le> 122) \<or> c = 95)"

definition is_name_char :: "nat \<Rightarrow> bool" where
  "is_name_char c = (is_name_start c \<or> is_digit c)"

definition is_op_char :: "nat \<Rightarrow> bool" where
  "is_op_char c = (c \<in> set (ascii ''+-*/%().''))"

definition int_of_digits :: "pystr \<Rightarrow> int" where
  "int_of_digits ds = foldl (\<lambda>acc d. 10 * acc + int (d - 48)) 0 ds"

text \<open>
  A decimal integer literal is modelled when it has no leading zero and no letter, digit
  separator or point directly after it; a string literal when it is single-quoted and
  free of backslashes.
\<close>

definition bad_number :: "nat \<Rightarrow> pystr \<Rightarrow> bool" where
  "bad_number c cs =
     ((c = 48 \<and> cs \<noteq> [] \<and> is_digit (hd cs))
      \<or> (dropWhile is_digit cs \<noteq> []
          \<and> (is_name_char (hd (dropWhile is_digit cs)) \<or> hd (dropWhile is_digit cs) = 46)))"

function tokenize :: "pystr \<Rightarrow> token list option" where
  "tokenize [] = Some []"
| "tokenize (c # cs) =
     (if c = 32 \<or> c = 9 then tokenize cs
      else if is_digit c then
        (if bad_number c cs then None
         else map_option (\<lambda>ts. TNum (int_of_digits (c # takeWhile is_digit cs)) # ts)
                (tokenize (dropWhile is_digit cs)))
      else if is_name_start c then
        map_option (\<lambda>ts. TName (c # takeWhile is_name_char cs) # ts)
          (tokenize (dropWhile is_name_char cs))
      else if c = 39 then
        (case dropWhile (\<lambda>x. x \<noteq> 39) cs of
           [] \<Rightarrow> None
         | _ # r \<Rightarrow>
             (if 92 \<in> set (takeWhile (\<lambda>x. x \<noteq> 39) cs) \<or> 10 \<in> set (takeWhile (\<lambda>x. x \<noteq> 39) cs)
              then None
              else map_option (\<lambda>ts. TStr (takeWhile (\<lambda>x. x \<noteq> 39) cs) # ts) (tokenize r)))
      else if c = 42 \<and> (case cs of [] \<Rightarrow> False | d # _ \<Rightarrow> d = 42) then
        map_option (\<lambda>ts. TPow # ts) (tokenize (tl cs))
      else if is_op_char c then map_option (\<lambda>ts. TOp c # ts) (tokenize cs)
      else None)"
  by pat_completeness auto
termination
proof (relation "measure length")
  fix c x21 :: nat and cs x22 :: "nat list"
  assume "dropWhile (\<lambda>x. x \<noteq> 39) cs = x21 # x22"
  then have "length (x21 # x22) \<le> length cs"
    using length_dropWhile_le [of "\<lambda>x. x \<noteq> 39" cs] by simp
  then show "(x22, c # cs) \<in> measure length" by simp
qed (auto simp: length_dropWhile_le le_imp_less_Suc split: list.splits)

datatype ast =
    Num int
  | Name pystr
  | Str pystr
  | Neg ast
  | BinOp token ast ast
  | Attr ast pystr
  | Call0 ast
  | Call1 ast ast

fun binary_prec :: "token \<Rightarrow> nat option" where
  "binary_prec (TOp c) =
     (if c = 43 \<or> c = 45 then Some 1 else if c = 42 \<or> c = 47 \<or> c = 37 then Some 2 else None)"
| "binary_prec t = None"

text \<open>
  A recursive-descent parser with Python's precedences: sums, products, unary minus,
  \<open>**\<close> (binding tighter than a unary minus on its left, and taking one on its right),
  then attribute access and calls. The first argument bounds the depth of the recursion;
  \<open>parse\<close> supplies eight steps per token, and running out yields \<open>None\<close> like any text
  outside the fragment.
\<close>

type_synonym fuel = "unit list"

datatype production =
    Expr nat
  | Loop nat ast
  | Unary
  | Power
  | Trailers ast
  | Atom

fun parse_nt :: "fuel \<Rightarrow> production \<Rightarrow> token list \<Rightarrow> (ast \<times> token list) option" where
  "parse_nt [] nt ts = None"
| "parse_nt (u # f) (Expr minp) ts =
     (case parse_nt f Unary ts of None \<Rightarrow> None | Some (lhs, r) \<Rightarrow> parse_nt f (Loop minp lhs) r)"
| "parse_nt (u # f) (Loop minp lhs) ts =
     (case ts of
        [] \<Rightarrow> Some (lhs, [])
      | t # r \<Rightarrow>
          (case binary_prec t of
             None \<Rightarrow> Some (lhs, ts)
           | Some p \<Rightarrow>
               (if p < minp then Some (lhs, ts)
                else (case parse_nt f (Expr (Suc p)) r of
                        None \<Rightarrow> None
                      | Some (rhs, r') \<Rightarrow> parse_nt f (Loop minp (BinOp t lhs rhs)) r'))))"
| "parse_nt (u # f) Unary ts =
     (case ts of
        [] \<Rightarrow> None
      | t # r \<Rightarrow>
          (if t = TOp 45 then map_option (\<lambda>(e, r'). (Neg e, r')) (parse_nt f Unary r)
           else parse_nt f Power ts))"
| "parse_nt (u # f) Power ts =
     (case parse_nt f Atom ts of
        None \<Rightarrow> None
      | Some (a, r) \<Rightarrow>
          (case parse_nt f (Trailers a) r of
             None \<Rightarrow> None
           | Some (b, r') \<Rightarrow>
               (if r' \<noteq> [] \<and> hd r' = TPow
                then map_option (\<lambda>(e, r''). (BinOp TPow b e, r'')) (parse_nt f Unary (tl r'))
                else Some (b, r'))))"
| "parse_nt (u # f) (Trailers a) ts =
     (if ts \<noteq> [] \<and> hd ts = TOp 46 then
        (case tl ts of
           TName n # r \<Rightarrow> parse_nt f (Trailers (Attr a n)) r
         | _ \<Rightarrow> None)
      else if ts \<noteq> [] \<and> hd ts = TOp 40 then
        (if tl ts \<noteq> [] \<and> hd (tl ts) = TOp 41 then parse_nt f (Trailers (Call0 a)) (tl (tl ts))
         else (case parse_nt f (Expr 1) (tl ts) of
                 None \<Rightarrow> None
               | Some (arg, r') \<Rightarrow>
                   (if r' \<noteq> [] \<and> hd r' = TOp 41 then parse_nt f (Trailers (Call1 a arg)) (tl r')
                    else None)))
      else Some (a, ts))"
| "parse_nt (u # f) Atom ts =
     (case ts of
        [] \<Rightarrow> None
      | TNum n # r \<Rightarrow> Some (Num n, r)
      | TName n # r \<Rightarrow> Some (Name n, r)
      | TStr s # r \<Rightarrow> Some (Str s, r)
      | TPow # r \<Rightarrow> None
      | TOp c # r \<Rightarrow>
          (if c = 40 then
             (case parse_nt f (Expr 1) r of
                None \<Rightarrow> None
              | Some (e, r') \<Rightarrow> (if r' \<noteq> [] \<and> hd r' = TOp 41 then Some (e, tl r') else None))
           else None))"

definition fuel_for :: "token list \<Rightarrow> fuel" where
  "fuel_for ts = concat (map (\<lambda>t. [(), (), (), (), (), (), (), ()]) (TPow # ts))"

definition parse :: "pystr \<Rightarrow> ast option" where
  "parse s =
     (case tokenize s of
        None \<Rightarrow> None
      | Some ts \<Rightarrow> (case parse_nt (fuel_for ts) (Expr 1) ts of Some (e, []) \<Rightarrow> Some e | _ \<Rightarrow> None))"

subsection \<open>Evaluation\<close>

text \<open>
  The state of the process, as far as the fragment reads it: the clock that
  \<open>time.time_ns()\<close> returns. Nothing in the fragment writes to the state.
\<close>

record world =
  clock :: int

definition unmodelled :: exc where
  "unmodelled = Exception ''Unmodelled'' (ascii ''outside the modelled fragment'')"

definition name_error :: "pystr \<Rightarrow> exc" where
  "name_error n = Exception ''NameError'' (ascii ''name '' @ [39] @ n @ [39] @ ascii '' is not defined'')"

text \<open>
  The names Python resolves without the local namespace: its keywords and the names of
  the \<open>builtins\<close> module (with those that \<open>site\<close> adds). Of these the fragment models
  \<open>__import__\<close> only; any other name that the namespace lacks raises \<open>NameError\<close>.
\<close>

definition reserved_names :: "string list" where
  "reserved_names =
    [''ArithmeticError'', ''AssertionError'', ''AttributeError'', ''BaseException'',
     ''BaseExceptionGroup'', ''BlockingIOError'', ''BrokenPipeError'', ''BufferError'',
     ''BytesWarning'', ''ChildProcessError'', ''ConnectionAbortedError'', ''ConnectionError'',
     ''ConnectionRefusedError'', ''ConnectionResetError'', ''DeprecationWarning'',
     ''EOFError'', ''Ellipsis'', ''EncodingWarning'', ''EnvironmentError'', ''Exception'',
     ''ExceptionGroup'', ''False'', ''FileExistsError'', ''FileNotFoundError'',
     ''FloatingPointError'', ''FutureWarning'', ''GeneratorExit'', ''IOError'',
     ''ImportError'', ''ImportWarning'', ''IndentationError'', ''IndexError'',
     ''InterruptedError'', ''IsADirectoryError'', ''KeyError'', ''KeyboardInterrupt'',
     ''LookupError'', ''MemoryError'', ''ModuleNotFoundError'', ''NameError'', ''None'',
     ''NotADirectoryError'', ''NotImplemented'', ''NotImplementedError'', ''OSError'',
     ''OverflowError'', ''PendingDeprecationWarning'', ''PermissionError'',
     ''ProcessLookupError'', ''PythonFinalizationError'', ''RecursionError'',
     ''ReferenceError'', ''ResourceWarning'', ''RuntimeError'', ''RuntimeWarning'',
     ''StopAsyncIteration'', ''StopIteration'', ''SyntaxError'', ''SyntaxWarning'',
     ''SystemError'', ''SystemExit'', ''TabError'', ''TimeoutError'', ''True'', ''TypeError'',
     ''UnboundLocalError'', ''UnicodeDecodeError'', ''UnicodeEncodeError'', ''UnicodeError'',
     ''UnicodeTranslateError'', ''UnicodeWarning'', ''UserWarning'', ''ValueError'',
     ''Warning'', ''WindowsError'', ''ZeroDivisionError'', ''_IncompleteInputError'',
     ''__build_class__'', ''__builtins__'', ''__debug__'', ''__doc__'', ''__loader__'',
     ''__name__'', ''__package__'', ''__spec__'', ''abs'', ''aiter'', ''all'', ''and'',
     ''anext'', ''any'', ''as'', ''ascii'', ''assert'', ''async'', ''await'', ''bin'',
     ''bool'', ''break'', ''breakpoint'', ''bytearray'', ''bytes'', ''callable'', ''chr'',
     ''class'', ''classmethod'', ''compile'', ''complex'', ''continue'', ''copyright'',
     ''credits'', ''def'', ''del'', ''delattr'', ''dict'', ''dir'', ''divmod'', ''elif'',
     ''else'', ''enumerate'', ''eval'', ''except'', ''exec'', ''exit'', ''filter'',
     ''finally'', ''float'', ''for'', ''format'', ''from'', ''frozenset'', ''getattr'',
     ''global'', ''globals'', ''hasattr'', ''hash'', ''help'', ''hex'', ''id'', ''if'',
     ''import'', ''in'', ''input'', ''int'', ''is'', ''isinstance'', ''issubclass'', ''iter'',
     ''lambda'', ''len'', ''license'', ''list'', ''locals'', ''map'', ''max'', ''memoryview'',
     ''min'', ''next'', ''nonlocal'', ''not'', ''object'', ''oct'', ''open'', ''or'', ''ord'',
     ''pass'', ''pow'', ''print'', ''property'', ''quit'', ''raise'', ''range'', ''repr'',
     ''return'', ''reversed'', ''round'', ''set'', ''setattr'', ''slice'', ''sorted'',
     ''staticmethod'', ''str'', ''sum'', ''super'', ''try'', ''tuple'', ''type'', ''vars'',
     ''while'', ''with'', ''yield'', ''zip'']"

definition lookup_unit :: "pystr \<Rightarrow> string option" where
  "lookup_unit n = map_option (\<lambda>(k, cn, d). cn) (find (\<lambda>(k, cn, d). ascii k = n) registry)"

text \<open>
  The objects of the fragment: the values of the model, and the three kinds that occur
  while an expression over \<open>{"Q_": Q_, "ureg": ureg}\<close> is evaluated.
\<close>

datatype obj =
    Val "units value"
  | UnitObj units
  | Registry
  | QuantityClass

fun lookup_name :: "units namespace \<Rightarrow> pystr \<Rightarrow> obj option" where
  "lookup_name (Symbols d) n = map_option Val (map_of d n)"
| "lookup_name QuantityAndRegistry n =
     (if n = ascii ''Q_'' then Some QuantityClass
      else if n = ascii ''ureg'' then Some Registry
      else None)"

fun int_binop :: "token \<Rightarrow> int \<Rightarrow> int \<Rightarrow> exc + obj" where
  "int_binop t a b =
     (if t = TOp 43 then Inr (Val (VNumber (PyInt (a + b))))
      else if t = TOp 45 then Inr (Val (VNumber (PyInt (a - b))))
      else if t = TOp 42 then Inr (Val (VNumber (PyInt (a * b))))
      else if t = TOp 37 \<and> b \<noteq> 0 then Inr (Val (VNumber (PyInt (a mod b))))
      else if t = TPow \<and> 0 \<le> b then Inr (Val (VNumber (PyInt (a ^ nat b))))
      else Inl unmodelled)"

fun binop :: "token \<Rightarrow> obj \<Rightarrow> obj \<Rightarrow> exc + obj" where
  "binop t (Val (VNumber (PyInt a))) (Val (VNumber (PyInt b))) = int_binop t a b"
| "binop t (Val (VQuantity (PyInt a) u)) (Val (VQuantity (PyInt b) v)) =
     (if t = TOp 42 then Inr (Val (VQuantity (PyInt (a * b)) (u_mul u v))) else Inl unmodelled)"
| "binop t (Val (VQuantity (PyInt a) u)) (Val (VNumber (PyInt b))) =
     (if t = TOp 42 then Inr (Val (VQuantity (PyInt (a * b)) u))
      else if t = TPow \<and> 1 \<le> b then Inr (Val (VQuantity (PyInt (a ^ nat b)) (u_pow u b)))
      else Inl unmodelled)"
| "binop t (Val (VNumber (PyInt a))) (Val (VQuantity (PyInt b) u)) =
     (if t = TOp 42 then Inr (Val (VQuantity (PyInt (a * b)) u)) else Inl unmodelled)"
| "binop t (Val (VNumber (PyInt a))) (UnitObj u) =
     (if t = TOp 42 then Inr (Val (VQuantity (PyInt a) u)) else Inl unmodelled)"
| "binop t (UnitObj u) (Val (VNumber (PyInt b))) =
     (if t = TOp 42 then Inr (Val (VQuantity (PyInt b) u))
      else if t = TPow \<and> 1 \<le> b then Inr (UnitObj (u_pow u b))
      else Inl unmodelled)"
| "binop t (UnitObj u) (UnitObj v) =
     (if t = TOp 42 then Inr (UnitObj (u_mul u v)) else Inl unmodelled)"
| "binop t a b = Inl unmodelled"

fun negate :: "obj \<Rightarrow> exc + obj" where
  "negate (Val (VNumber (PyInt a))) = Inr (Val (VNumber (PyInt (- a))))"
| "negate (Val (VQuantity (PyInt a) u)) = Inr (Val (VQuantity (PyInt (- a)) u))"
| "negate v = Inl unmodelled"

fun getattr :: "obj \<Rightarrow> pystr \<Rightarrow> exc + obj" where
  "getattr Registry n =
     (case lookup_unit n of Some cn \<Rightarrow> Inr (UnitObj [(cn, 1)]) | None \<Rightarrow> Inl unmodelled)"
| "getattr (Val (VModule m)) n =
     (if m = ascii ''sys'' \<and> n = ascii ''exit'' then Inr (Val (VFunction (ascii ''sys.exit'')))
      else if m = ascii ''time'' \<and> n = ascii ''time_ns''
        then Inr (Val (VFunction (ascii ''time.time_ns'')))
      else Inl unmodelled)"
| "getattr v n = Inl unmodelled"

text \<open>\<open>sys.exit()\<close> raises \<open>SystemExit\<close>, whose \<open>str\<close> is empty.\<close>

fun call0 :: "world \<Rightarrow> obj \<Rightarrow> exc + obj" where
  "call0 w (Val (VFunction f)) =
     (if f = ascii ''sys.exit'' then Inl (BaseException ''SystemExit'' [])
      else if f = ascii ''time.time_ns'' then Inr (Val (VNumber (PyInt (clock w))))
      else Inl unmodelled)"
| "call0 w v = Inl unmodelled"

fun call1 :: "obj \<Rightarrow> obj \<Rightarrow> exc + obj" where
  "call1 (Val (VFunction f)) (Val (VStr s)) =
     (if f = ascii ''__import__'' \<and> (s = ascii ''sys'' \<or> s = ascii ''time'')
      then Inr (Val (VModule s))
      else Inl unmodelled)"
| "call1 f v = Inl unmodelled"

text \<open>Operands are evaluated left to right, and the first exception ends the evaluation.\<close>

fun eval_ast :: "world \<Rightarrow> units namespace \<Rightarrow> ast \<Rightarrow> exc + obj" where
  "eval_ast w ns (Num n) = Inr (Val (VNumber (PyInt n)))"
| "eval_ast w ns (Str s) = Inr (Val (VStr s))"
| "eval_ast w ns (Name n) =
     (case lookup_name ns n of
        Some v \<Rightarrow> Inr v
      | None \<Rightarrow>
          (if n = ascii ''__import__'' then Inr (Val (VFunction n))
           else if n \<in> set (map ascii reserved_names) then Inl unmodelled
           else Inl (name_error n)))"
| "eval_ast w ns (Neg a) =
     (case eval_ast w ns a of Inl e \<Rightarrow> Inl e | Inr v \<Rightarrow> negate v)"
| "eval_ast w ns (BinOp t a b) =
     (case eval_ast w ns a of
        Inl e \<Rightarrow> Inl e
      | Inr va \<Rightarrow> (case eval_ast w ns b of Inl e \<Rightarrow> Inl e | Inr vb \<Rightarrow> binop t va vb))"
| "eval_ast w ns (Attr a n) =
     (case eval_ast w ns a of Inl e \<Rightarrow> Inl e | Inr v \<Rightarrow> getattr v n)"
| "eval_ast w ns (Call0 a) =
     (case eval_ast w ns a of Inl e \<Rightarrow> Inl e | Inr v \<Rightarrow> call0 w v)"
| "eval_ast w ns (Call1 a b) =
     (case eval_ast w ns a of
        Inl e \<Rightarrow> Inl e
      | Inr va \<Rightarrow> (case eval_ast w ns b of Inl e \<Rightarrow> Inl e | Inr vb \<Rightarrow> call1 va vb))"

definition ref_eval :: "world \<Rightarrow> pystr \<Rightarrow> units namespace \<Rightarrow> (exc + units value) \<times> world" where
  "ref_eval w s ns =
     (case parse s of
        None \<Rightarrow> (Inl unmodelled, w)
      | Some e \<Rightarrow>
          (case eval_ast w ns e of
             Inl x \<Rightarrow> (Inl x, w)
           | Inr (Val v) \<Rightarrow> (Inr v, w)
           | Inr other \<Rightarrow> (Inl unmodelled, w)))"

subsection \<open>Unit strings\<close>

text \<open>
  pint parses a unit string to a scale and powers of names, rejects a scale other than 1
  (\<open>ValueError\<close>), and only then looks the names up in the registry. The empty string is
  the dimensionless unit.
\<close>

fun rat_power :: "rat \<Rightarrow> int \<Rightarrow> rat option" where
  "rat_power s k =
     (if 0 \<le> k then Some (s ^ nat k) else if s = 0 then None else Some (inverse (s ^ nat (- k))))"

fun unit_ast :: "ast \<Rightarrow> (rat \<times> (pystr \<times> int) list) option" where
  "unit_ast (Num n) = Some (of_int n, [])"
| "unit_ast (Name n) = Some (1, [(n, 1)])"
| "unit_ast (BinOp t a b) =
     (case unit_ast a of
        None \<Rightarrow> None
      | Some (s, u) \<Rightarrow>
          (if t = TPow then
             (case (case b of Num k \<Rightarrow> Some k | Neg (Num k) \<Rightarrow> Some (- k) | _ \<Rightarrow> None) of
                None \<Rightarrow> None
              | Some k \<Rightarrow> map_option (\<lambda>s'. (s', map (\<lambda>(n, e). (n, e * k)) u)) (rat_power s k))
           else
             (case unit_ast b of
                None \<Rightarrow> None
              | Some (s', v) \<Rightarrow>
                  (if t = TOp 42 then Some (s * s', u @ v)
                   else if t = TOp 47 \<and> s' \<noteq> 0 then Some (s / s', u @ map (\<lambda>(n, e). (n, - e)) v)
                   else None))))"
| "unit_ast a = None"

fun canonical :: "(pystr \<times> int) list \<Rightarrow> units \<Rightarrow> exc + units" where
  "canonical [] acc = Inr acc"
| "canonical ((n, e) # r) acc =
     (case lookup_unit n of
        None \<Rightarrow> Inl unmodelled
      | Some cn \<Rightarrow> canonical r (if e = 0 then acc else u_insert cn e acc))"

text \<open>
  A text with an empty pair of parentheses, as in a call without arguments, is no unit
  expression: pint's parser finds nothing in the group and raises an instance of
  \<open>Exception\<close>, whose class and text depend on the version of pint and are not modelled.
  The other texts that are not products of powers of names are outside the fragment.
\<close>

fun empty_call :: "ast \<Rightarrow> bool" where
  "empty_call (Call0 a) = True"
| "empty_call (Call1 a b) = (empty_call a \<or> empty_call b)"
| "empty_call (Attr a n) = empty_call a"
| "empty_call (BinOp t a b) = (empty_call a \<or> empty_call b)"
| "empty_call (Neg a) = empty_call a"
| "empty_call a = False"

definition not_a_unit_expression :: exc where
  "not_a_unit_expression = Exception ''Unmodelled'' (ascii ''not a unit expression'')"

definition ref_parse_units :: "pystr \<Rightarrow> exc + units" where
  "ref_parse_units s =
     (if s = [] then Inr []
      else (case parse s of
              None \<Rightarrow> Inl unmodelled
            | Some a \<Rightarrow>
                (if empty_call a then Inl not_a_unit_expression
                 else (case unit_ast a of
                         None \<Rightarrow> Inl unmodelled
                       | Some (scale, u) \<Rightarrow>
                           (if scale \<noteq> 1
                            then Inl (Exception ''ValueError''
                                       (ascii ''Unit expression cannot have a scaling factor.''))
                            else canonical u [])))))"

definition pyref :: "(units, units, world) pylib" where
  "pyref = \<lparr>parse_units = ref_parse_units, py_eval = ref_eval,
            str_units = ref_str_units, dimensionality = ref_dimensionality\<rparr>"

definition w0 :: world where
  "w0 = \<lparr>clock = 1700000000000000000\<rparr>"

definition w1 :: world where
  "w1 = \<lparr>clock = 1700000000000000001\<rparr>"

definition config :: "string \<Rightarrow> session_config" where
  "config s = \<lparr>verbose_output = False, include_constants = True,
                custom_variables = Some (ascii s)\<rparr>"

section \<open>Further wording of the specification\<close>

text \<open>
  The (name, expression) pairs of a configuration, and the build described on them:
  the catalogue, then the pairs resolved in order and laid over it. The sides of an
  equation as they are evaluated. An expression is state-independent in a namespace
  when its outcome is the same from every state of the process.
\<close>

definition config_terms :: "pystr option \<Rightarrow> (pystr \<times> pystr) list" where
  "config_terms cv = (case cv of None \<Rightarrow> [] | Some s \<Rightarrow> spec_terms s)"

definition build_from_terms :: "('u, 'd, 'w) pylib \<Rightarrow> 'w \<Rightarrow> (pystr \<times> pystr) list
    \<Rightarrow> (exc + 'u value dict) \<times> pystr list \<times> 'w" where
  "build_from_terms L w terms =
     (case base_context L of
        Inl e \<Rightarrow> (Inl e, [], w)
      | Inr base \<Rightarrow>
          (case bind_terms L w terms [] of
             (Inr custom_vars, w') \<Rightarrow> (Inr (dict_update base custom_vars), [], w')
           | (Inl (Exception c t), w') \<Rightarrow> (Inr base, [warning (Exception c t)], w')
           | (Inl (BaseException c t), w') \<Rightarrow> (Inl (BaseException c t), [], w')))"

definition sides :: "pystr \<Rightarrow> pystr list" where
  "sides eqn = map strip (split_on equals eqn)"


section \<open>Example inputs\<close>

text \<open>The catalogue as the reference pint builds it.\<close>

definition ref_base :: "units value dict" where
  "ref_base =
    [(ascii ''F'', VQuantity (PyInt 1) [(''newton'', 1)]),
     (ascii ''m'', VQuantity (PyInt 1) [(''kilogram'', 1)]),
     (ascii ''a'', VQuantity (PyInt 1) [(''meter'', 1), (''second'', - 2)]),
     (ascii ''v'', VQuantity (PyInt 1) [(''meter'', 1), (''second'', - 1)]),
     (ascii ''u'', VQuantity (PyInt 1) [(''meter'', 1), (''second'', - 1)]),
     (ascii ''d'', VQuantity (PyInt 1) [(''meter'', 1)]),
     (ascii ''x'', VQuantity (PyInt 1) [(''meter'', 1)]),
     (ascii ''t'', VQuantity (PyInt 1) [(''second'', 1)]),
     (ascii ''p'', VQuantity (PyInt 1) [(''kilogram'', 1), (''meter'', 1), (''second'', - 1)]),
     (ascii ''E'', VQuantity (PyInt 1) [(''joule'', 1)]),
     (ascii ''W'', VQuantity (PyInt 1) [(''joule'', 1)]),
     (ascii ''KE'', VQuantity (PyInt 1) [(''joule'', 1)]),
     (ascii ''PE'', VQuantity (PyInt 1) [(''joule'', 1)]),
     (ascii ''P'', VQuantity (PyInt 1) [(''watt'', 1)]),
     (ascii ''q'', VQuantity (PyInt 1) [(''coulomb'', 1)]),
     (ascii ''V'', VQuantity (PyInt 1) [(''volt'', 1)]),
     (ascii ''I'', VQuantity (PyInt 1) [(''ampere'', 1)]),
     (ascii ''R'', VQuantity (PyInt 1) [(''ohm'', 1)]),
     (ascii ''C'', VQuantity (PyInt 1) [(''farad'', 1)]),
     (ascii ''L'', VQuantity (PyInt 1) [(''henry'', 1)]),
     (ascii ''B'', VQuantity (PyInt 1) [(''tesla'', 1)]),
     (ascii ''phi'', VQuantity (PyInt 1) [(''weber'', 1)]),
     (ascii ''T'', VQuantity (PyInt 1) [(''kelvin'', 1)]),
     (ascii ''k'', VQuantity (PyInt 1) [(''joule'', 1), (''kelvin'', - 1)]),
     (ascii ''R_gas'', VQuantity (PyInt 1) [(''joule'', 1), (''kelvin'', - 1), (''mole'', - 1)]),
     (ascii ''n'', VQuantity (PyInt 1) [(''mole'', 1)]),
     (ascii ''p_pressure'', VQuantity (PyInt 1) [(''pascal'', 1)]),
     (ascii ''V_volume'', VQuantity (PyInt 1) [(''meter'', 3)]),
     (ascii ''Q_heat'', VQuantity (PyInt 1) [(''joule'', 1)]),
     (ascii ''f'', VQuantity (PyInt 1) [(''hertz'', 1)]),
     (ascii ''lambda_'', VQuantity (PyInt 1) [(''meter'', 1)]),
     (ascii ''c'', VQuantity (PyInt 299792458) [(''meter'', 1), (''second'', - 1)]),
     (ascii ''omega'', VQuantity (PyInt 1) [(''radian'', 1), (''second'', - 1)]),
     (ascii ''G'', VQuantity (PyFloat (Fract 2581878694434571 (2 ^ 85)))
        [(''kilogram'', - 1), (''meter'', 3), (''second'', - 2)]),
     (ascii ''h'', VQuantity (PyFloat (Fract 3873563939581825 (2 ^ 162))) [(''joule'', 1), (''second'', 1)]),
     (ascii ''e'', VQuantity (PyFloat (Fract 6654447653898235 (2 ^ 115))) [(''coulomb'', 1)])]"

definition example_ctx :: ctx where
  "example_ctx = \<lparr>session_config = \<lparr>verbose_output = False, include_constants = True,
     custom_variables = Some (ascii ''A=meter**2, g = second,junk'')\<rparr>\<rparr>"

definition rebinding_ctx :: ctx where
  "rebinding_ctx = \<lparr>session_config = \<lparr>verbose_output = False, include_constants = True,
     custom_variables = Some (ascii ''A=meter**2'')\<rparr>\<rparr>"

section \<open>Properties of the string operations\<close>

lemma strip_alt: "strip s = rstrip (lstrip s)"
  by (simp add: strip_def lstrip_def rstrip_def)

lemma not_space_equals: "\<not> isspace equals"
  by (simp add: isspace_def equals_def)

lemma rstrip_Cons:
  "rstrip (x # xs) = (if (\<forall>y\<in>set xs. isspace y) \<and> isspace x then [] else x # rstrip xs)"
  by (auto simp: rstrip_def dropWhile_append)

lemma lstrip_rstrip: "lstrip (rstrip s) = rstrip (lstrip s)"
proof (induction s)
  case Nil
  show ?case by (simp add: lstrip_def rstrip_def)
next
  case (Cons x xs)
  show ?case
  proof (cases "isspace x")
    case True
    then have l: "lstrip (x # xs) = lstrip xs" by (simp add: lstrip_def)
    show ?thesis
    proof (cases "\<forall>y\<in>set xs. isspace y")
      case A: True
      then have "lstrip xs = []" by (simp add: lstrip_def)
      with A True l show ?thesis by (simp add: rstrip_Cons) (simp add: lstrip_def rstrip_def)
    next
      case False
      have "rstrip (x # xs) = x # rstrip xs" using False by (simp add: rstrip_Cons)
      then have "lstrip (rstrip (x # xs)) = lstrip (rstrip xs)" using True by (simp add: lstrip_def)
      with l Cons show ?thesis by simp
    qed
  next
    case False
    then show ?thesis by (simp add: rstrip_Cons lstrip_def)
  qed
qed

lemma rstrip_idem: "rstrip (rstrip s) = rstrip s"
  by (simp add: rstrip_def)

lemma lstrip_idem: "lstrip (lstrip s) = lstrip s"
  by (simp add: lstrip_def)

lemma strip_lstrip: "strip (lstrip s) = strip s"
  by (simp add: strip_alt lstrip_idem)

lemma strip_rstrip: "strip (rstrip s) = strip s"
  by (simp add: strip_alt lstrip_rstrip rstrip_idem)

lemma strip_idem: "strip (strip s) = strip s"
  by (simp add: strip_alt lstrip_rstrip rstrip_idem lstrip_idem)

lemma lstrip_append_eq: "lstrip (p @ equals # r) = lstrip p @ equals # r"
  by (simp add: lstrip_def dropWhile_append not_space_equals)

lemma rstrip_append_eq: "rstrip (p @ equals # r) = p @ equals # rstrip r"
  by (simp add: rstrip_def dropWhile_append not_space_equals)

lemma strip_term: "strip (p @ equals # r) = lstrip p @ equals # rstrip r"
  by (simp add: strip_alt lstrip_append_eq rstrip_append_eq)

lemma split_max1_term: "equals \<notin> set p \<Longrightarrow> split_max1 equals (p @ equals # r) = [p, r]"
  by (simp add: split_max1_def dropWhile_append)

lemma term_decomp:
  assumes "equals \<in> set t"
  shows "t = takeWhile (\<lambda>x. x \<noteq> equals) t @ equals # tl (dropWhile (\<lambda>x. x \<noteq> equals) t)"
proof -
  have ne: "dropWhile (\<lambda>x. x \<noteq> equals) t \<noteq> []"
    using assms by (simp add: dropWhile_eq_Nil_conv)
  then have "hd (dropWhile (\<lambda>x. x \<noteq> equals) t) = equals"
    using hd_dropWhile [of "\<lambda>x. x \<noteq> equals" t] by simp
  with ne have "dropWhile (\<lambda>x. x \<noteq> equals) t = equals # tl (dropWhile (\<lambda>x. x \<noteq> equals) t)"
    by (cases "dropWhile (\<lambda>x. x \<noteq> equals) t") auto
  then show ?thesis
    using takeWhile_dropWhile_id [of "\<lambda>x. x \<noteq> equals" t] by simp
qed

text \<open>
  What the source computes for a term that contains \<open>=\<close>: the unpacking never fails, and
  after the second round of \<open>strip\<close> the two parts are the specification's name and
  expression.
\<close>

lemma unpack_term:
  assumes "equals \<in> set t"
  shows "unpack2 (split_max1 equals (strip t))
           = Inr (lstrip (takeWhile (\<lambda>x. x \<noteq> equals) t), rstrip (tl (dropWhile (\<lambda>x. x \<noteq> equals) t)))"
proof -
  let ?p = "takeWhile (\<lambda>x. x \<noteq> equals) t" and ?r = "tl (dropWhile (\<lambda>x. x \<noteq> equals) t)"
  have "equals \<notin> set ?p" by (auto dest: set_takeWhileD)
  then have "equals \<notin> set (lstrip ?p)" by (auto simp: lstrip_def dest: set_dropWhileD)
  moreover have "strip t = lstrip ?p @ equals # rstrip ?r"
    using term_decomp [OF assms] strip_term [of ?p ?r] by simp
  ultimately show ?thesis by (simp add: split_max1_term)
qed

lemma strip_unpacked_name: "strip (lstrip (takeWhile (\<lambda>x. x \<noteq> equals) t)) = term_name t"
  by (simp add: term_name_def strip_lstrip)

lemma strip_unpacked_expr: "strip (rstrip (tl (dropWhile (\<lambda>x. x \<noteq> equals) t))) = term_expr t"
  by (simp add: term_expr_def strip_rstrip)

lemma split_on_nonempty: "split_on c s \<noteq> []"
  by (induction s) (auto split: list.splits)

lemma split_on_no_sep: "c \<notin> set s \<Longrightarrow> split_on c s = [s]"
  by (induction s) auto

lemma split_on_append: "c \<notin> set x \<Longrightarrow> split_on c (x @ c # s) = x # split_on c s"
  by (induction x) auto

lemma split_on_no_comma: "x \<in> set (split_on c s) \<Longrightarrow> c \<notin> set x"
  by (induction s arbitrary: x) (auto split: if_splits list.splits)

lemma split_join:
  "xs \<noteq> [] \<Longrightarrow> \<forall>x\<in>set xs. c \<notin> set x \<Longrightarrow> split_on c (join [c] xs) = xs"
  by (induction "[c]" xs rule: join.induct) (auto simp: split_on_no_sep split_on_append)

section \<open>Properties of the loops\<close>

lemma current_loop_Cons:
  "current_loop (t # rest) d =
     (if equals \<in> set t then current_loop rest (AList.update (term_name t) (term_expr t) d)
      else current_loop rest d)"
  by (simp add: unpack_term strip_unpacked_name strip_unpacked_expr)

lemma current_loop_merge:
  "current_loop ts d =
     merge_terms (map (\<lambda>t. (term_name t, term_expr t)) (filter (\<lambda>t. equals \<in> set t) ts)) d"
proof (induction ts arbitrary: d)
  case Nil
  show ?case by simp
next
  case (Cons t ts)
  show ?case unfolding current_loop_Cons by (simp add: Cons.IH)
qed

lemma parse_current_merge:
  "parse_current cv = (case cv of None \<Rightarrow> [] | Some s \<Rightarrow> merge_terms (spec_terms s) [])"
proof (cases cv)
  case None
  then show ?thesis by (simp add: parse_current_def)
next
  case (Some s)
  show ?thesis
  proof (cases "s = []")
    case True
    with Some show ?thesis by (simp add: parse_current_def spec_terms_def)
  next
    case False
    with Some show ?thesis by (simp add: parse_current_def spec_terms_def current_loop_merge)
  qed
qed

lemmas str_eval = ascii_def comma_def equals_def strip_def isspace_def split_max1_def

lemma merge_terms_distinct: "distinct (map fst d) \<Longrightarrow> distinct (map fst (merge_terms ps d))"
  by (induction ps d rule: merge_terms.induct) (auto simp: distinct_update)

lemma parse_current_distinct: "distinct (map fst (parse_current cv))"
  by (simp add: parse_current_merge merge_terms_distinct split: option.splits)

section \<open>\<open>add_custom_variable\<close> only proposes\<close>

lemma set_strip: "set (strip s) \<subseteq> set s"
  by (auto simp: strip_def dest!: set_dropWhileD)

lemma term_name_format: "equals \<notin> set k \<Longrightarrow> strip k = k \<Longrightarrow> term_name (k @ equals # v) = k"
  by (simp add: term_name_def takeWhile_append)

lemma term_expr_format: "equals \<notin> set k \<Longrightarrow> strip v = v \<Longrightarrow> term_expr (k @ equals # v) = v"
  by (simp add: term_expr_def dropWhile_append)

lemma update_fresh: "k \<notin> fst ` set d \<Longrightarrow> AList.update k v d = d @ [(k, v)]"
  by (induction d) auto

lemma merge_terms_fresh: "distinct (map fst (acc @ d)) \<Longrightarrow> merge_terms d acc = acc @ d"
proof (induction d arbitrary: acc)
  case Nil
  show ?case by simp
next
  case (Cons kv d)
  obtain k v where kv: "kv = (k, v)" by (cases kv)
  from Cons.prems kv have "k \<notin> fst ` set acc" by auto
  then have u: "AList.update k v acc = acc @ [(k, v)]" by (rule update_fresh)
  from Cons.prems kv have "distinct (map fst ((acc @ [(k, v)]) @ d))" by auto
  from Cons.IH [OF this] u kv show ?case by simp
qed

lemma set_update_subset: "set (AList.update k v d) \<subseteq> insert (k, v) (set d)"
  by (induction d) auto

lemma merge_terms_well_formed:
  "\<forall>kv\<in>set ps. well_formed_item kv \<Longrightarrow> \<forall>kv\<in>set d. well_formed_item kv
     \<Longrightarrow> \<forall>kv\<in>set (merge_terms ps d). well_formed_item kv"
proof (induction ps d rule: merge_terms.induct)
  case (1 d)
  then show ?case by simp
next
  case (2 name expr rest d)
  have "\<forall>kv\<in>set (AList.update name expr d). well_formed_item kv"
    using set_update_subset [of name expr d] 2(2,3) by auto
  with 2 show ?case by simp
qed

lemma spec_terms_well_formed: "\<forall>kv\<in>set (spec_terms s). well_formed_item kv"
proof
  fix kv assume "kv \<in> set (spec_terms s)"
  then obtain t where t: "t \<in> set (split_on comma s)" and kv: "kv = (term_name t, term_expr t)"
    by (auto simp: spec_terms_def)
  from t have nc: "comma \<notin> set t" by (rule split_on_no_comma)
  have "set (takeWhile (\<lambda>x. x \<noteq> equals) t) \<subseteq> set t" by (auto dest: set_takeWhileD)
  with nc set_strip have 1: "comma \<notin> set (term_name t)" unfolding term_name_def by blast
  have "equals \<notin> set (takeWhile (\<lambda>x. x \<noteq> equals) t)" by (auto dest: set_takeWhileD)
  with set_strip have 2: "equals \<notin> set (term_name t)" unfolding term_name_def by blast
  have "set (tl xs) \<subseteq> set xs" for xs :: pystr by (cases xs) auto
  moreover have "set (dropWhile (\<lambda>x. x \<noteq> equals) t) \<subseteq> set t" by (auto dest: set_dropWhileD)
  ultimately have "set (tl (dropWhile (\<lambda>x. x \<noteq> equals) t)) \<subseteq> set t" by blast
  with nc set_strip have 3: "comma \<notin> set (term_expr t)" unfolding term_expr_def by blast
  from 1 2 3 kv show "well_formed_item kv"
    by (simp add: well_formed_item_def) (simp add: term_name_def term_expr_def strip_idem)
qed

lemma parse_current_well_formed: "\<forall>kv\<in>set (parse_current cv). well_formed_item kv"
proof (cases cv)
  case None
  then show ?thesis by (simp add: parse_current_merge)
next
  case (Some s)
  have "\<forall>kv\<in>set (merge_terms (spec_terms s) []). well_formed_item kv"
    by (rule merge_terms_well_formed [OF spec_terms_well_formed]) simp
  with Some show ?thesis by (simp add: parse_current_merge)
qed

lemma format_item_term:
  assumes "well_formed_item kv"
  shows "equals \<in> set (format_item kv)" "comma \<notin> set (format_item kv)"
    "term_name (format_item kv) = fst kv" "term_expr (format_item kv) = snd kv"
proof -
  from assms have k: "equals \<notin> set (fst kv)" "strip (fst kv) = fst kv" "strip (snd kv) = snd kv"
    and c: "comma \<notin> set (fst kv)" "comma \<notin> set (snd kv)"
    by (simp_all add: well_formed_item_def)
  show "equals \<in> set (format_item kv)" by (simp add: format_item_def)
  have "comma \<noteq> equals" by (simp add: comma_def equals_def)
  with c show "comma \<notin> set (format_item kv)" by (simp add: format_item_def)
  from k show "term_name (format_item kv) = fst kv" by (simp add: format_item_def term_name_format)
  from k show "term_expr (format_item kv) = snd kv" by (simp add: format_item_def term_expr_format)
qed

lemma join_nonempty: "x \<noteq> [] \<Longrightarrow> join sep (x # xs) \<noteq> []"
  by (cases xs) auto

lemma reread_serialised:
  assumes wf: "\<forall>kv\<in>set d. well_formed_item kv" and di: "distinct (map fst d)" and ne: "d \<noteq> []"
  shows "parse_current (Some (serialise d)) = d"
proof -
  from ne obtain kv rest where d: "d = kv # rest" by (cases d) auto
  with wf have "format_item kv \<noteq> []" using format_item_term(1) [of kv] by auto
  then have t: "serialise d \<noteq> []" by (simp add: serialise_def d join_nonempty)
  have sp: "split_on comma (serialise d) = map format_item d"
    unfolding serialise_def using ne wf by (intro split_join) (auto simp: format_item_term)
  have "filter (\<lambda>t. equals \<in> set t) (map format_item d) = map format_item d"
    using wf by (auto simp: filter_id_conv format_item_term)
  moreover have "map (\<lambda>t. (term_name t, term_expr t)) (map format_item d) = d"
    using wf by (induction d) (auto simp: format_item_term)
  ultimately have "current_loop (map format_item d) [] = merge_terms d []"
    by (simp add: current_loop_merge)
  also have "\<dots> = d" using merge_terms_fresh [of "[]" d] di by simp
  finally show ?thesis using t sp by (simp add: parse_current_def)
qed

lemma update_nonempty: "AList.update k v d \<noteq> []"
  by (cases d) auto

lemma example_parse_current: "parse_current (Some (ascii ''A=meter**2, g = second,junk'')) = [(ascii ''A'', ascii ''meter**2''), (ascii ''g'', ascii ''second'')]"
  by (simp add: parse_current_def str_eval)

lemma example_new_custom_vars: "new_custom_vars (ascii ''g'') (ascii ''9.81*meter/second**2'') (Some (ascii ''A=meter**2, g = second,junk''))
   = ascii ''A=meter**2,g=9.81*meter/second**2''"
  by (simp add: new_custom_vars_def parse_current_def serialise_def format_item_def str_eval)

text \<open>
  C8. \<open>add_custom_variable\<close> leaves the request context, and with it the stored
  configuration, as it found it, and its reply carries the proposed configuration string
  between the quotes of \<open>custom_variables='...'\<close>. When \<open>name\<close> holds no comma and no
  \<open>=\<close>, \<open>unit\<close> holds no comma, and neither begins or ends with white space, the
  proposed string read back term by term is the current dictionary with \<open>name\<close> set to
  \<open>unit\<close>: \<open>name\<close> is bound to \<open>unit\<close>, and every other name is bound as it was.
\<close>

theorem proposed_string_rereads_as_merge:
  fixes name unit :: pystr and c :: ctx
  defines "cv \<equiv> custom_variables (session_config c)"
  defines "proposed \<equiv> new_custom_vars name unit cv"
  assumes "comma \<notin> set name" and "equals \<notin> set name" and "strip name = name"
    and "comma \<notin> set unit" and "strip unit = unit"
  shows "snd (add_custom_variable name unit c) = c
    \<and> fst (add_custom_variable name unit c)
        = [0x2705] @ ascii '' Custom variable '' @ [39] @ name @ [39] @ ascii '' with unit '' @ [39]
            @ unit @ [39] @ ascii '' added.'' @ [10, 10]
          @ ascii ''To use this variable, restart the server with:'' @ [10]
          @ ascii ''custom_variables='' @ [39] @ proposed @ [39] @ [10, 10]
          @ ascii ''Example usage in equations:'' @ [10]
          @ ascii ''- '' @ [39] @ ascii ''h = 0.5 * g * t**2'' @ [39]
            @ ascii '' (height with gravitational acceleration)'' @ [10]
          @ ascii ''- '' @ [39] @ ascii ''F = rho * A * v**2'' @ [39]
            @ ascii '' (force with density and area)''
    \<and> parse_current (Some proposed) = AList.update name unit (parse_current cv)
    \<and> map_of (parse_current (Some proposed)) name = Some unit
    \<and> (\<forall>k. k \<noteq> name \<longrightarrow> map_of (parse_current (Some proposed)) k = map_of (parse_current cv) k)"
proof -
  have "well_formed_item (name, unit)" using assms(3-7) by (simp add: well_formed_item_def)
  then have "\<forall>kv\<in>set (AList.update name unit (parse_current cv)). well_formed_item kv"
    using set_update_subset [of name unit "parse_current cv"] parse_current_well_formed [of cv]
    by auto
  then have r: "parse_current (Some proposed) = AList.update name unit (parse_current cv)"
    unfolding proposed_def new_custom_vars_def
    by (rule reread_serialised) (simp_all add: distinct_update parse_current_distinct update_nonempty)
  show ?thesis
    unfolding r
    by (simp add: add_custom_variable_def instructions_def proposed_def cv_def update_conv')
qed

theorem proposed_string_rereads_as_merge_witness:
  "comma \<notin> set (ascii ''g'') \<and> equals \<notin> set (ascii ''g'') \<and> strip (ascii ''g'') = ascii ''g''
   \<and> comma \<notin> set (ascii ''9.81*meter/second**2'')
   \<and> strip (ascii ''9.81*meter/second**2'') = ascii ''9.81*meter/second**2''
   \<and> new_custom_vars (ascii ''g'') (ascii ''9.81*meter/second**2'')
        (custom_variables (session_config example_ctx)) = ascii ''A=meter**2,g=9.81*meter/second**2''
   \<and> snd (add_custom_variable (ascii ''g'') (ascii ''9.81*meter/second**2'') example_ctx) = example_ctx
   \<and> parse_current (Some (ascii ''A=meter**2,g=9.81*meter/second**2''))
       = [(ascii ''A'', ascii ''meter**2''), (ascii ''g'', ascii ''9.81*meter/second**2'')]
   \<and> ascii ''A'' \<noteq> ascii ''g''
   \<and> map_of (parse_current (Some (ascii ''A=meter**2,g=9.81*meter/second**2''))) (ascii ''A'')
       = Some (ascii ''meter**2'')"
proof -
  have h: "comma \<notin> set (ascii ''g'')" "equals \<notin> set (ascii ''g'')" "strip (ascii ''g'') = ascii ''g''"
    "comma \<notin> set (ascii ''9.81*meter/second**2'')"
    "strip (ascii ''9.81*meter/second**2'') = ascii ''9.81*meter/second**2''"
    by (simp_all add: str_eval)
  have cur: "parse_current (custom_variables (session_config example_ctx))
      = [(ascii ''A'', ascii ''meter**2''), (ascii ''g'', ascii ''second'')]"
    by (simp add: example_ctx_def example_parse_current)
  have p: "new_custom_vars (ascii ''g'') (ascii ''9.81*meter/second**2'')
        (custom_variables (session_config example_ctx)) = ascii ''A=meter**2,g=9.81*meter/second**2''"
    by (simp add: example_ctx_def example_new_custom_vars)
  have ne: "ascii ''A'' \<noteq> ascii ''g''" by (simp add: ascii_def)
  note T = proposed_string_rereads_as_merge [OF h, of example_ctx, unfolded p cur]
  from T have a: "snd (add_custom_variable (ascii ''g'') (ascii ''9.81*meter/second**2'') example_ctx) = example_ctx"
    by blast
  from T have b: "parse_current (Some (ascii ''A=meter**2,g=9.81*meter/second**2''))
       = AList.update (ascii ''g'') (ascii ''9.81*meter/second**2'')
           [(ascii ''A'', ascii ''meter**2''), (ascii ''g'', ascii ''second'')]"
    by blast
  from T ne have "map_of (parse_current (Some (ascii ''A=meter**2,g=9.81*meter/second**2''))) (ascii ''A'')
       = map_of [(ascii ''A'', ascii ''meter**2''), (ascii ''g'', ascii ''second'')] (ascii ''A'')"
    by blast
  then have d: "map_of (parse_current (Some (ascii ''A=meter**2,g=9.81*meter/second**2''))) (ascii ''A'')
       = Some (ascii ''meter**2'')" by simp
  from b ne have b': "parse_current (Some (ascii ''A=meter**2,g=9.81*meter/second**2''))
       = [(ascii ''A'', ascii ''meter**2''), (ascii ''g'', ascii ''9.81*meter/second**2'')]"
    by simp
  from h p a b' ne d show ?thesis by blast
qed

text \<open>
  Without the conditions on \<open>unit\<close> the proposed string does not keep the other
  bindings: with \<open>A=meter**2\<close> configured, the pair \<open>g\<close>, \<open>1,A=second\<close> gives
  \<open>A=meter**2,g=1,A=second\<close>, in which \<open>A\<close> reads as \<open>second\<close> and \<open>g\<close> as \<open>1\<close>.
\<close>

theorem proposed_string_rebinds_other_name:
  "fst (add_custom_variable (ascii ''g'') (ascii ''1,A=second'') rebinding_ctx)
     = instructions (ascii ''g'') (ascii ''1,A=second'') (ascii ''A=meter**2,g=1,A=second'')
   \<and> map_of (parse_current (custom_variables (session_config rebinding_ctx))) (ascii ''A'')
       = Some (ascii ''meter**2'')
   \<and> map_of (parse_current (Some (ascii ''A=meter**2,g=1,A=second''))) (ascii ''A'')
       = Some (ascii ''second'')
   \<and> map_of (parse_current (Some (ascii ''A=meter**2,g=1,A=second''))) (ascii ''g'')
       = Some (ascii ''1'')
   \<and> ascii ''meter**2'' \<noteq> ascii ''second'' \<and> ascii ''1'' \<noteq> ascii ''1,A=second''"
  by (simp add: add_custom_variable_def new_custom_vars_def rebinding_ctx_def parse_current_def
      serialise_def format_item_def str_eval)

section \<open>Evaluating the reference instance\<close>

lemmas tok_eval = ascii_def bad_number_def is_digit_def is_name_start_def is_name_char_def is_op_char_def
  int_of_digits_def

lemmas parse_eval = parse_def fuel_for_def tok_eval

lemmas units_eval = ref_parse_units_def parse_eval lookup_unit_def registry_def u_mul_def
  u_pow_def u_div_def not_a_unit_expression_def unmodelled_def

lemmas eval_defs = pyref_def ref_eval_def parse_eval name_error_def unmodelled_def lookup_unit_def
  registry_def u_mul_def u_pow_def ref_base_def reserved_names_def

lemma parse_units_examples:
  "ref_parse_units (ascii ''meter/second**2'') = Inr [(''meter'', 1), (''second'', - 2)]"
  "ref_parse_units (ascii ''meter**3 / (kilogram * second**2)'') = Inr [(''kilogram'', - 1), (''meter'', 3), (''second'', - 2)]"
  "ref_parse_units (ascii ''joule/(mol*kelvin)'') = Inr [(''joule'', 1), (''kelvin'', - 1), (''mole'', - 1)]"
  by (simp_all add: units_eval)

lemma ref_base_context: "base_context pyref = Inr ref_base"
  by (simp add: base_context_def catalog_def Q_new_def pyref_def ref_base_def units_eval)

section \<open>\<open>float\<close> of a large \<open>int\<close>\<close>

lemma bit_length_pos: "0 < n \<Longrightarrow> 0 < bit_length n"
  by (subst bit_length.simps) simp

lemma bit_length_lower: "0 < n \<Longrightarrow> 2 ^ (bit_length n - 1) \<le> n"
proof (induction n rule: bit_length.induct)
  case (1 n)
  show ?case
  proof (cases "n div 2 \<le> 0")
    case True
    with "1.prems" have "n = 1" by linarith
    then show ?thesis by (simp add: bit_length.simps)
  next
    case False
    then have p: "0 < n div 2" by simp
    with "1.IH" "1.prems" have ih: "2 ^ (bit_length (n div 2) - 1) \<le> n div 2" by simp
    from p have "0 < bit_length (n div 2)" by (rule bit_length_pos)
    then have "bit_length (n div 2) = Suc (bit_length (n div 2) - 1)" by simp
    moreover have "bit_length n = Suc (bit_length (n div 2))"
      using "1.prems" by (subst bit_length.simps) simp
    ultimately have "(2::int) ^ (bit_length n - 1) = 2 * 2 ^ (bit_length (n div 2) - 1)"
      by (metis diff_Suc_1 power_Suc)
    also have "\<dots> \<le> 2 * (n div 2)" using ih by simp
    also have "\<dots> \<le> n" by linarith
    finally show ?thesis .
  qed
qed

lemma le_div_of_mult_le: "0 < b \<Longrightarrow> K * b \<le> a \<Longrightarrow> K \<le> a div (b::int)"
  using zdiv_mono1 [of "K * b" a b] by simp

lemma float_of_int_overflow:
  assumes "2 ^ 1024 \<le> \<bar>n\<bar>"
  shows "float_of_int n = Inl (Exception ''OverflowError'' (ascii ''int too large to convert to float''))"
proof -
  define B :: int where "B = 2 ^ 1024"
  define a where "a = \<bar>n\<bar>"
  define e where "e = bit_length a - 53"
  define b :: int where "b = 2 ^ e"
  define q where "q = a div b"
  have bpos: "0 < b" by (simp add: b_def)
  have Bpos: "0 < B" by (simp add: B_def)
  have a: "B \<le> a" using assms by (simp add: a_def B_def)
  with Bpos have apos: "0 < a" by linarith
  have low: "B \<le> q * b"
  proof (cases "e \<le> 1024")
    case True
    define K :: int where "K = 2 ^ (1024 - e)"
    have "K * b = 2 ^ ((1024 - e) + e)" unfolding K_def b_def by (rule power_add [symmetric])
    also have "\<dots> = B" using True by (simp add: B_def)
    finally have kb: "K * b = B" .
    with a have "K * b \<le> a" by simp
    from le_div_of_mult_le [OF bpos this] have "K \<le> q" by (simp add: q_def)
    then have "K * b \<le> q * b" using bpos by simp
    with kb show ?thesis by simp
  next
    case False
    then have bl: "bit_length a - 1 = 52 + e" by (simp add: e_def)
    define K :: int where "K = 2 ^ 52"
    from bit_length_lower [OF apos] bl have "(2::int) ^ (52 + e) \<le> a" by simp
    moreover have "(2::int) ^ (52 + e) = K * b" unfolding K_def b_def by (rule power_add)
    ultimately have "K * b \<le> a" by simp
    from le_div_of_mult_le [OF bpos this] have "K \<le> q" by (simp add: q_def)
    then have kq: "K * b \<le> q * b" using bpos by simp
    have "(2::int) ^ 1024 \<le> 2 ^ e" using False by (intro power_increasing) simp_all
    then have "B \<le> b" by (simp only: B_def b_def)
    moreover have "1 \<le> K" by (simp add: K_def)
    ultimately have "B \<le> K * b" using bpos
      by (metis mult.commute mult.right_neutral mult_left_mono order_trans zero_less_imp_eq_int
          of_nat_0_le_iff less_imp_le)
    with kq show ?thesis by linarith
  qed
  have "q * b \<le> (q + 1) * b" using bpos by (simp add: algebra_simps)
  with low have low': "B \<le> (q + 1) * b" by linarith
  have "float_of_int n =
      (if B \<le> (if 2 * (a mod b) > b \<or> (2 * (a mod b) = b \<and> odd q) then q + 1 else q) * b
       then Inl (Exception ''OverflowError'' (ascii ''int too large to convert to float''))
       else Inr (of_int (sgn n * ((if 2 * (a mod b) > b \<or> (2 * (a mod b) = b \<and> odd q) then q + 1 else q) * b))))"
    by (simp only: float_of_int_def Let_def a_def e_def b_def q_def B_def)
  with low low' show ?thesis by simp
qed

lemma float_big: "py_float (PyInt (10 ^ 400))
    = Inl (Exception ''OverflowError'' (ascii ''int too large to convert to float''))"
  by (simp add: float_of_int_overflow)

lemma bit_length_upper: "n < 2 ^ k \<Longrightarrow> bit_length n \<le> k"
proof (induction k arbitrary: n)
  case 0
  then show ?case by (subst bit_length.simps) simp
next
  case (Suc k)
  show ?case
  proof (cases "n \<le> 0")
    case True
    then show ?thesis by (subst bit_length.simps) simp
  next
    case False
    from Suc.prems have "n div 2 < 2 ^ k" by simp
    from Suc.IH [OF this] False show ?thesis by (subst bit_length.simps) simp
  qed
qed

lemma float_of_int_exact:
  assumes "\<bar>n\<bar> < 2 ^ 53"
  shows "float_of_int n = Inr (of_int n)"
proof -
  from bit_length_upper [OF assms] have e: "bit_length \<bar>n\<bar> - 53 = 0" by simp
  have "\<bar>n\<bar> < 2 ^ 1024" using assms by (rule less_trans) simp
  moreover have "sgn n * \<bar>n\<bar> = n" by (simp add: mult_sgn_abs)
  ultimately show ?thesis by (simp add: float_of_int_def e Let_def)
qed

section \<open>Properties of \<open>build_context\<close>\<close>

lemma custom_loop_Cons:
  "custom_loop L w (t # rest) cv =
     (if equals \<in> set t then
        (case resolve L w (term_expr t) of
           (Inl e, w') \<Rightarrow> (Inl e, w')
         | (Inr q, w') \<Rightarrow> custom_loop L w' rest (AList.update (term_name t) q cv))
      else custom_loop L w rest cv)"
  by (auto simp: unpack_term strip_unpacked_name strip_unpacked_expr split: prod.splits sum.splits)

declare custom_loop.simps(2) [simp del]

lemma custom_loop_bind:
  "custom_loop L w ts cv =
     bind_terms L w (map (\<lambda>t. (term_name t, term_expr t)) (filter (\<lambda>t. equals \<in> set t) ts)) cv"
proof (induction ts arbitrary: w cv)
  case Nil
  show ?case by simp
next
  case (Cons t ts)
  show ?case unfolding custom_loop_Cons
    by (auto simp: Cons.IH split: prod.splits sum.splits)
qed

lemma custom_loop_filter:
  "custom_loop L w ts cv = custom_loop L w (filter (\<lambda>t. equals \<in> set t) ts) cv"
  by (simp add: custom_loop_bind)

lemma custom_loop_append:
  "custom_loop L w (xs @ ys) cv =
     (case custom_loop L w xs cv of
        (Inl e, w') \<Rightarrow> (Inl e, w')
      | (Inr cv', w') \<Rightarrow> custom_loop L w' ys cv')"
proof (induction xs arbitrary: w cv)
  case Nil
  show ?case by simp
next
  case (Cons t xs)
  show ?case unfolding append_Cons custom_loop_Cons
    by (auto simp: Cons.IH split: prod.splits sum.splits)
qed

lemma custom_loop_distinct:
  "custom_loop L w ts cv = (Inr cv', w') \<Longrightarrow> distinct (map fst cv) \<Longrightarrow> distinct (map fst cv')"
proof (induction ts arbitrary: w cv)
  case Nil
  then show ?case by simp
next
  case (Cons t ts)
  from Cons.prems show ?case unfolding custom_loop_Cons
    by (auto simp: distinct_update split: if_splits prod.splits sum.splits dest: Cons.IH)
qed

lemma custom_loop_other_names:
  "custom_loop L w ts cv = (Inr cv', w') \<Longrightarrow>
   \<forall>t\<in>set ts. equals \<in> set t \<longrightarrow> term_name t \<noteq> n \<Longrightarrow> map_of cv' n = map_of cv n"
proof (induction ts arbitrary: w cv)
  case Nil
  then show ?case by simp
next
  case (Cons t ts)
  show ?case
  proof (cases "equals \<in> set t")
    case False
    with Cons.prems Cons.IH [of w cv] show ?thesis by (simp add: custom_loop_Cons)
  next
    case True
    with Cons.prems(1) obtain q w1 where r: "resolve L w (term_expr t) = (Inr q, w1)"
      and l: "custom_loop L w1 ts (AList.update (term_name t) q cv) = (Inr cv', w')"
      by (auto simp: custom_loop_Cons split: prod.splits sum.splits)
    from Cons.prems(2) True have ne: "term_name t \<noteq> n" by simp
    from Cons.prems(2) have "\<forall>t\<in>set ts. equals \<in> set t \<longrightarrow> term_name t \<noteq> n" by simp
    from Cons.IH [OF l this] ne show ?thesis by (simp add: update_conv')
  qed
qed

lemma map_of_fold_update:
  "distinct (map fst other) \<Longrightarrow>
   map_of (fold (\<lambda>(k, v). AList.update k v) other d) n
     = (case map_of other n of Some q \<Rightarrow> Some q | None \<Rightarrow> map_of d n)"
proof (induction other arbitrary: d)
  case Nil
  show ?case by simp
next
  case (Cons kv other)
  obtain k v where kv: "kv = (k, v)" by (cases kv)
  from Cons.prems kv have d: "distinct (map fst other)" and nk: "k \<notin> fst ` set other" by auto
  from nk have "map_of other k = None" by (simp add: map_of_eq_None_iff)
  with Cons.IH [OF d, of "AList.update k v d"] kv show ?case
    by (auto simp: update_conv' split: option.splits)
qed

lemma map_of_dict_update:
  "distinct (map fst other) \<Longrightarrow>
   map_of (dict_update d other) n = (case map_of other n of Some q \<Rightarrow> Some q | None \<Rightarrow> map_of d n)"
  by (simp add: dict_update_def map_of_fold_update)


lemma build_context_alt:
  "build_context L w cfg =
     (case base_context L of
        Inl e \<Rightarrow> (Inl e, [], w)
      | Inr base \<Rightarrow>
          (case custom_loop L w (case custom_variables cfg of None \<Rightarrow> [] | Some s \<Rightarrow> split_on comma s) [] of
             (Inr custom_vars, w') \<Rightarrow> (Inr (dict_update base custom_vars), [], w')
           | (Inl (Exception c t), w') \<Rightarrow> (Inr base, [warning (Exception c t)], w')
           | (Inl (BaseException c t), w') \<Rightarrow> (Inl (BaseException c t), [], w')))"
proof (cases "base_context L")
  case (Inl e)
  then show ?thesis by (simp add: build_context_def)
next
  case (Inr base)
  show ?thesis
  proof (cases "custom_variables cfg")
    case None
    with Inr show ?thesis by (simp add: build_context_def dict_update_def)
  next
    case (Some s)
    show ?thesis
    proof (cases "s = []")
      case True
      have "custom_loop L w [[]] [] = (Inr [], w)" by (simp add: custom_loop_Cons)
      with True Some Inr show ?thesis by (simp add: build_context_def dict_update_def)
    next
      case False
      with Some Inr show ?thesis by (simp add: build_context_def)
    qed
  qed
qed

lemma build_context_from_terms:
  "build_context L w cfg = build_from_terms L w (config_terms (custom_variables cfg))"
proof (cases "base_context L")
  case (Inl e)
  then show ?thesis by (simp add: build_context_alt build_from_terms_def)
next
  case (Inr base)
  then show ?thesis
    by (cases "custom_variables cfg")
       (simp_all add: build_context_alt build_from_terms_def config_terms_def spec_terms_def
          custom_loop_bind [symmetric])
qed



section \<open>Properties of \<open>check_equation_sanity\<close>\<close>

lemma split_on_count_one:
  assumes "count_list s c = 1"
  shows "split_on c s = [takeWhile (\<lambda>x. x \<noteq> c) s, tl (dropWhile (\<lambda>x. x \<noteq> c) s)]"
proof -
  let ?p = "takeWhile (\<lambda>x. x \<noteq> c) s" and ?r = "tl (dropWhile (\<lambda>x. x \<noteq> c) s)"
  from assms have "c \<in> set s" by (metis count_list_0_iff zero_neq_one)
  then have ne: "dropWhile (\<lambda>x. x \<noteq> c) s \<noteq> []" by (simp add: dropWhile_eq_Nil_conv)
  then have "hd (dropWhile (\<lambda>x. x \<noteq> c) s) = c"
    using hd_dropWhile [of "\<lambda>x. x \<noteq> c" s] by simp
  with ne have "dropWhile (\<lambda>x. x \<noteq> c) s = c # ?r"
    by (cases "dropWhile (\<lambda>x. x \<noteq> c) s") auto
  then have s: "s = ?p @ c # ?r"
    using takeWhile_dropWhile_id [of "\<lambda>x. x \<noteq> c" s] by simp
  have p: "c \<notin> set ?p" by (auto dest: set_takeWhileD)
  then have "count_list ?p c = 0" by (simp add: count_list_0_iff)
  moreover have "count_list s c = count_list ?p c + (1 + count_list ?r c)"
    by (subst s) simp
  ultimately have "count_list ?r c = 0" using assms by simp
  then have "c \<notin> set ?r" by (simp add: count_list_0_iff)
  then have "split_on c (?p @ c # ?r) = [?p, ?r]"
    using p by (simp add: split_on_append split_on_no_sep)
  with s show ?thesis by simp
qed



lemma check_body_sides:
  assumes "split_on equals eqn = [lhs, rhs]"
    and "py_eval L w (strip lhs) (Symbols context) = (Inr lhs_val, wa)"
    and "py_eval L wa (strip rhs) (Symbols context) = (Inr rhs_val, wb)"
  shows "check_body L w eqn context verb
           = (compare_sides L eqn (strip lhs) (strip rhs) lhs_val rhs_val verb, wb)"
  using assms by (simp add: check_body_def)

lemma compare_quantities:
  assumes "verb \<longrightarrow> py_float m1 = Inr f1 \<and> py_float m2 = Inr f2"
  shows "compare_sides L eqn le re (VQuantity m1 u1) (VQuantity m2 u2) verb =
     Inr \<lparr>equation = eqn,
          consistent = (dimensionality L u1 = dimensionality L u2),
          lhs_units = Some (str_units L u1),
          rhs_units = Some (str_units L u2),
          message = (if dimensionality L u1 = dimensionality L u2
                     then consistent_message (str_units L u1)
                     else inconsistent_message (str_units L u1) (str_units L u2)),
          verbose = (if verb
                     then Some \<lparr>lhs_expression = le, rhs_expression = re,
                                lhs_magnitude = f1, rhs_magnitude = f2\<rparr>
                     else None)\<rparr>"
  using assms by (auto simp: compare_sides_def check_def attach_verbose_def Let_def)



section \<open>Examples on the reference instance\<close>

text \<open>
  What the reference instance computes on the inputs of the examples below: the sides of
  equations, the expressions of custom variables, and the loop over the terms of
  configurations.
\<close>

lemma eval_F: "py_eval pyref w (ascii ''F'') (Symbols ref_base) = (Inr (VQuantity (PyInt 1) [(''newton'', 1)]), w)"
  by (simp add: eval_defs)

lemma eval_m_a: "py_eval pyref w (ascii ''m * a'') (Symbols ref_base)
    = (Inr (VQuantity (PyInt 1) [(''kilogram'', 1), (''meter'', 1), (''second'', - 2)]), w)"
  by (simp add: eval_defs)

lemma eval_d: "py_eval pyref w (ascii ''d'') (Symbols ref_base) = (Inr (VQuantity (PyInt 1) [(''meter'', 1)]), w)"
  by (simp add: eval_defs)

lemma eval_d_big: "py_eval pyref w (ascii ''d * 10**400'') (Symbols ref_base)
    = (Inr (VQuantity (PyInt (10 ^ 400)) [(''meter'', 1)]), w)"
  by (simp add: eval_defs)


lemma eval_one: "py_eval pyref w (ascii ''1'') (Symbols ref_base) = (Inr (VNumber (PyInt 1)), w)"
  by (simp add: eval_defs)


lemma dim_newton: "dimensionality pyref [(''newton'', 1)]
    = dimensionality pyref [(''kilogram'', 1), (''meter'', 1), (''second'', - 2)]"
  by (simp add: pyref_def ref_dimensionality_def dim_of_def registry_def u_mul_def u_pow_def ascii_def)

lemma str_newton: "str_units pyref [(''newton'', 1)] = ascii ''newton''"
  by (simp add: pyref_def ref_str_units_def fmt_unit_def)

lemma str_nat_digit: "n < 10 \<Longrightarrow> str_nat n = [48 + n]"
  by (subst str_nat.simps) simp

lemma str_kg_m_s2: "str_units pyref [(''kilogram'', 1), (''meter'', 1), (''second'', - 2)]
    = ascii ''kilogram * meter / second ** 2''"
  by (simp add: pyref_def ref_str_units_def fmt_unit_def ascii_def str_nat_digit)

lemma split_F_m_a:
  "split_on equals (ascii ''F = m * a'') = [ascii ''F '', ascii '' m * a'']"
  "strip (ascii ''F '') = ascii ''F''"
  "strip (ascii '' m * a'') = ascii ''m * a''"
  by (simp_all add: str_eval)

lemma split_d_big:
  "count_list (ascii ''d * 10**400 = d'') equals = 1"
  "split_on equals (ascii ''d * 10**400 = d'') = [ascii ''d * 10**400 '', ascii '' d'']"
  "strip (ascii ''d * 10**400 '') = ascii ''d * 10**400''"
  "strip (ascii '' d'') = ascii ''d''"
  by (simp_all add: str_eval)



lemma check_F_m_a:
  "check_equation_sanity pyref w0 (ascii ''F = m * a'') ref_base False =
     (Inr \<lparr>equation = ascii ''F = m * a'', consistent = True,
           lhs_units = Some (ascii ''newton''),
           rhs_units = Some (ascii ''kilogram * meter / second ** 2''),
           message = [0x2705] @ ascii '' Equation is dimensionally consistent: both sides are [newton].'',
           verbose = None\<rparr>, w0)"
proof -
  have "check_body pyref w0 (ascii ''F = m * a'') ref_base False =
      (compare_sides pyref (ascii ''F = m * a'') (ascii ''F'') (ascii ''m * a'')
         (VQuantity (PyInt 1) [(''newton'', 1)])
         (VQuantity (PyInt 1) [(''kilogram'', 1), (''meter'', 1), (''second'', - 2)]) False, w0)"
    using check_body_sides [OF split_F_m_a(1), of pyref w0 ref_base _ w0 _ w0 False]
    by (simp add: split_F_m_a eval_F eval_m_a)
  then show ?thesis
    by (simp add: check_equation_sanity_def compare_quantities dim_newton str_newton str_kg_m_s2
        consistent_message_def ascii_def)
qed



lemmas resolve_eval = resolve_def Q_new_def custom_namespace_def pyref_def ref_eval_def
  ref_parse_units_def parse_eval name_error_def unmodelled_def not_a_unit_expression_def
  lookup_unit_def registry_def u_mul_def u_pow_def u_div_def reserved_names_def

lemma resolve_units:
  "resolve pyref w (ascii ''meter'') = (Inr (VQuantity (PyInt 1) [(''meter'', 1)]), w)"
  "resolve pyref w (ascii ''meter**2'') = (Inr (VQuantity (PyInt 1) [(''meter'', 2)]), w)"
  "resolve pyref w (ascii ''kilogram'') = (Inr (VQuantity (PyInt 1) [(''kilogram'', 1)]), w)"
  by (simp_all add: resolve_eval)









lemma resolve_exit:
  "resolve pyref w (ascii ''__import__('sys').exit()'') = (Inl (BaseException ''SystemExit'' []), w)"
  by (simp add: resolve_eval)

lemma resolve_number:
  "resolve pyref w (ascii ''5'') = (Inr (VNumber (PyInt 5)), w)"
  by (simp add: resolve_eval)

lemma resolve_clock:
  "resolve pyref w0 (ascii ''1*ureg.meter**(1+__import__('time').time_ns()%2)'')
     = (Inr (VQuantity (PyInt 1) [(''meter'', 1)]), w0)"
  "resolve pyref w1 (ascii ''1*ureg.meter**(1+__import__('time').time_ns()%2)'')
     = (Inr (VQuantity (PyInt 1) [(''meter'', 2)]), w1)"
  by (simp_all add: resolve_eval w0_def w1_def)

lemma resolve_scaled:
  "resolve pyref w (ascii ''2*meter/second**2'')
     = (Inl (Exception ''NameError'' (ascii ''name '' @ [39] @ ascii ''meter'' @ [39] @ ascii '' is not defined'')), w)"
  by (simp add: resolve_eval)

lemmas resolved = resolve_units resolve_exit resolve_number resolve_clock resolve_scaled

lemmas loop_eval = custom_loop_Cons term_name_def term_expr_def str_eval
  resolved [unfolded ascii_def, simplified]

lemma build_ref:
  "build_context pyref w (config s) =
     (case custom_loop pyref w (split_on comma (ascii s)) [] of
        (Inr cv, w') \<Rightarrow> (Inr (dict_update ref_base cv), [], w')
      | (Inl (Exception c t), w') \<Rightarrow> (Inr ref_base, [warning (Exception c t)], w')
      | (Inl (BaseException c t), w') \<Rightarrow> (Inl (BaseException c t), [], w'))"
  by (simp add: build_context_alt ref_base_context config_def)


lemma loop_override:
  "custom_loop pyref w0 (split_on comma (ascii ''t=meter, A = meter**2 ,junk,t=kilogram'')) []
     = (Inr [(ascii ''t'', VQuantity (PyInt 1) [(''kilogram'', 1)]),
             (ascii ''A'', VQuantity (PyInt 1) [(''meter'', 2)])], w0)"
  by (simp add: loop_eval)


lemma loop_discarded:
  "custom_loop pyref w0 (split_on comma (ascii ''t=meter,g=2*meter/second**2'')) []
     = (Inl (Exception ''NameError'' (ascii ''name '' @ [39] @ ascii ''meter'' @ [39] @ ascii '' is not defined'')), w0)"
  by (simp add: loop_eval)

lemma split_examples:
  "split_on comma (ascii ''A=meter**2,g=2*meter/second**2'')
     = [ascii ''A=meter**2''] @ ascii ''g=2*meter/second**2'' # []"
  "split_on comma (ascii ''t=meter, A = meter**2 ,junk,t=kilogram'')
     = [ascii ''t=meter'', ascii '' A = meter**2 '', ascii ''junk''] @ ascii ''t=kilogram'' # []"
  by (simp_all add: str_eval)

lemma term_examples:
  "equals \<in> set (ascii ''g=2*meter/second**2'')"
  "term_expr (ascii ''g=2*meter/second**2'') = ascii ''2*meter/second**2''"
  "equals \<in> set (ascii ''t=kilogram'')"
  "term_name (ascii ''t=kilogram'') = ascii ''t''"
  "term_expr (ascii ''t=kilogram'') = ascii ''kilogram''"
  "equals \<in> set (ascii '' A = meter**2 '')"
  "term_name (ascii '' A = meter**2 '') = ascii ''A''"
  "term_expr (ascii '' A = meter**2 '') = ascii ''meter**2''"
  "equals \<in> set (ascii ''N=5'')"
  "term_name (ascii ''N=5'') = ascii ''N''"
  "term_expr (ascii ''N=5'') = ascii ''5''"
  by (simp_all add: term_name_def term_expr_def str_eval)


lemma catalog_entries:
  "map_of ref_base (ascii ''t'') = Some (VQuantity (PyInt 1) [(''second'', 1)])"
  "map_of ref_base (ascii ''A'') = None"
  by (simp_all add: ref_base_def ascii_def)

lemma eval_override:
  "py_eval pyref w (ascii ''t'')
      (Symbols (dict_update ref_base
         [(ascii ''t'', VQuantity (PyInt 1) [(''kilogram'', 1)]),
          (ascii ''A'', VQuantity (PyInt 1) [(''meter'', 2)])]))
     = (Inr (VQuantity (PyInt 1) [(''kilogram'', 1)]), w)"
  by (simp add: eval_defs dict_update_def)








section \<open>The check of an equation\<close>

text \<open>
  C1. An equation with exactly one \<open>=\<close> whose two sides evaluate to Quantities, checked
  with \<open>verbose\<close> off or with both magnitudes convertible by \<open>float\<close>:
  \<open>check_equation_sanity\<close> returns a result, and \<open>consistent\<close> is true exactly when the
  units of the two Quantities have the same dimensionality, whatever the magnitudes.
\<close>

theorem consistent_iff_same_dimension:
  assumes "count_list eqn equals = 1"
    and "lhs = takeWhile (\<lambda>x. x \<noteq> equals) eqn"
    and "rhs = tl (dropWhile (\<lambda>x. x \<noteq> equals) eqn)"
    and "py_eval L w (strip lhs) (Symbols context) = (Inr (VQuantity m1 u1), wa)"
    and "py_eval L wa (strip rhs) (Symbols context) = (Inr (VQuantity m2 u2), wb)"
    and "verb \<longrightarrow> py_float m1 = Inr f1 \<and> py_float m2 = Inr f2"
  shows "\<exists>r. check_equation_sanity L w eqn context verb = (Inr r, wb)
           \<and> (consistent r \<longleftrightarrow> dimensionality L u1 = dimensionality L u2)"
proof -
  from assms(1-3) have "split_on equals eqn = [lhs, rhs]" by (simp add: split_on_count_one)
  then have b: "check_body L w eqn context verb
      = (compare_sides L eqn (strip lhs) (strip rhs) (VQuantity m1 u1) (VQuantity m2 u2) verb, wb)"
    by (rule check_body_sides [OF _ assms(4,5)])
  show ?thesis
    unfolding check_equation_sanity_def b compare_quantities [OF assms(6)] by simp
qed

theorem consistent_iff_same_dimension_witness:
  "count_list (ascii ''F = m * a'') equals = 1
   \<and> py_eval pyref w0 (ascii ''F'') (Symbols ref_base)
       = (Inr (VQuantity (PyInt 1) [(''newton'', 1)]), w0)
   \<and> py_eval pyref w0 (ascii ''m * a'') (Symbols ref_base)
       = (Inr (VQuantity (PyInt 1) [(''kilogram'', 1), (''meter'', 1), (''second'', - 2)]), w0)
   \<and> py_float (PyInt 1) = Inr 1
   \<and> (\<exists>r. check_equation_sanity pyref w0 (ascii ''F = m * a'') ref_base True = (Inr r, w0)
          \<and> consistent r)"
proof -
  have c: "count_list (ascii ''F = m * a'') equals = 1" by (simp add: str_eval)
  have l: "strip (takeWhile (\<lambda>x. x \<noteq> equals) (ascii ''F = m * a'')) = ascii ''F''"
    by (simp add: str_eval)
  have r: "strip (tl (dropWhile (\<lambda>x. x \<noteq> equals) (ascii ''F = m * a''))) = ascii ''m * a''"
    by (simp add: str_eval)
  have f: "py_float (PyInt 1) = Inr 1" using float_of_int_exact [of 1] by simp
  have el: "py_eval pyref w0 (strip (takeWhile (\<lambda>x. x \<noteq> equals) (ascii ''F = m * a''))) (Symbols ref_base)
      = (Inr (VQuantity (PyInt 1) [(''newton'', 1)]), w0)"
    unfolding l by (rule eval_F)
  have er: "py_eval pyref w0 (strip (tl (dropWhile (\<lambda>x. x \<noteq> equals) (ascii ''F = m * a'')))) (Symbols ref_base)
      = (Inr (VQuantity (PyInt 1) [(''kilogram'', 1), (''meter'', 1), (''second'', - 2)]), w0)"
    unfolding r by (rule eval_m_a)
  have v: "True \<longrightarrow> py_float (PyInt 1) = Inr 1 \<and> py_float (PyInt 1) = Inr 1" using f by simp
  from consistent_iff_same_dimension [OF c refl refl el er v] dim_newton
  have "\<exists>r. check_equation_sanity pyref w0 (ascii ''F = m * a'') ref_base True = (Inr r, w0)
          \<and> consistent r" by simp
  with c f eval_F [of w0] eval_m_a [of w0] show ?thesis by blast
qed

text \<open>
  With \<open>verbose\<close> on, a magnitude that \<open>float\<close> rejects turns the answer into the
  error result: \<open>d * 10**400\<close> and \<open>d\<close> are both lengths, and the result is not
  consistent.
\<close>

theorem verbose_overflow_is_inconsistent:
  "count_list (ascii ''d * 10**400 = d'') equals = 1
   \<and> py_eval pyref w0 (ascii ''d * 10**400'') (Symbols ref_base)
       = (Inr (VQuantity (PyInt (10 ^ 400)) [(''meter'', 1)]), w0)
   \<and> py_eval pyref w0 (ascii ''d'') (Symbols ref_base)
       = (Inr (VQuantity (PyInt 1) [(''meter'', 1)]), w0)
   \<and> dimensionality pyref [(''meter'', 1)] = dimensionality pyref [(''meter'', 1)]
   \<and> check_equation_sanity pyref w0 (ascii ''d * 10**400 = d'') ref_base True
       = (Inr \<lparr>equation = ascii ''d * 10**400 = d'', consistent = False,
               lhs_units = None, rhs_units = None,
               message = [0x274C] @ ascii '' Error while checking equation: int too large to convert to float'',
               verbose = None\<rparr>, w0)"
proof -
  have "check_body pyref w0 (ascii ''d * 10**400 = d'') ref_base True =
      (compare_sides pyref (ascii ''d * 10**400 = d'') (ascii ''d * 10**400'') (ascii ''d'')
         (VQuantity (PyInt (10 ^ 400)) [(''meter'', 1)]) (VQuantity (PyInt 1) [(''meter'', 1)]) True, w0)"
    using check_body_sides [OF split_d_big(2), of pyref w0 ref_base _ w0 _ w0 True]
    by (simp add: split_d_big eval_d eval_d_big)
  moreover have "compare_sides pyref (ascii ''d * 10**400 = d'') (ascii ''d * 10**400'') (ascii ''d'')
         (VQuantity (PyInt (10 ^ 400)) [(''meter'', 1)]) (VQuantity (PyInt 1) [(''meter'', 1)]) True
       = Inl (Exception ''OverflowError'' (ascii ''int too large to convert to float''))"
    by (simp add: compare_sides_def attach_verbose_def float_of_int_overflow)
  ultimately have "check_equation_sanity pyref w0 (ascii ''d * 10**400 = d'') ref_base True
      = (Inr (error_result (ascii ''d * 10**400 = d'')
           (Exception ''OverflowError'' (ascii ''int too large to convert to float''))), w0)"
    by (simp add: check_equation_sanity_def)
  then show ?thesis
    by (simp add: split_d_big eval_d eval_d_big error_result_def error_message_def) (simp add: ascii_def)
qed




text \<open>
  C3. On a consistent result for two sides that evaluate to Quantities, \<open>lhs_units\<close> and
  \<open>rhs_units\<close> are the unit strings of the two sides, each its own, and the message says
  that both sides are the unit string of the left side, whether or not the unit string
  of the right side equals it.
\<close>

theorem success_message_names_lhs_units:
  assumes "split_on equals eqn = [lhs, rhs]"
    and "py_eval L w (strip lhs) (Symbols context) = (Inr (VQuantity m1 u1), wa)"
    and "py_eval L wa (strip rhs) (Symbols context) = (Inr (VQuantity m2 u2), wb)"
    and "check_equation_sanity L w eqn context verb = (Inr r, wb)"
    and "consistent r"
  shows "lhs_units r = Some (str_units L u1) \<and> rhs_units r = Some (str_units L u2)
           \<and> message r = [0x2705] @ ascii '' Equation is dimensionally consistent: both sides are [''
                           @ str_units L u1 @ ascii ''].''"
proof -
  have b: "check_body L w eqn context verb
      = (compare_sides L eqn (strip lhs) (strip rhs) (VQuantity m1 u1) (VQuantity m2 u2) verb, wb)"
    by (rule check_body_sides [OF assms(1-3)])
  show ?thesis
  proof (cases "compare_sides L eqn (strip lhs) (strip rhs) (VQuantity m1 u1) (VQuantity m2 u2) verb")
    case (Inr r')
    with b assms(4) have "r' = r" by (simp add: check_equation_sanity_def)
    with Inr assms(5) show ?thesis
      by (auto simp: compare_sides_def attach_verbose_def consistent_message_def Let_def
            split: if_splits sum.splits)
  next
    case (Inl e)
    with b assms(4) have "r = error_result eqn e"
      by (cases e) (auto simp: check_equation_sanity_def)
    with assms(5) show ?thesis by (simp add: error_result_def)
  qed
qed

theorem success_message_names_lhs_units_witness:
  "split_on equals (ascii ''F = m * a'') = [ascii ''F '', ascii '' m * a'']
   \<and> (\<exists>r. check_equation_sanity pyref w0 (ascii ''F = m * a'') ref_base False = (Inr r, w0)
        \<and> consistent r
        \<and> lhs_units r = Some (ascii ''newton'')
        \<and> rhs_units r = Some (ascii ''kilogram * meter / second ** 2'')
        \<and> message r = [0x2705] @ ascii '' Equation is dimensionally consistent: both sides are [''
                        @ ascii ''newton'' @ ascii ''].'')"
proof -
  let ?r = "\<lparr>equation = ascii ''F = m * a'', consistent = True,
           lhs_units = Some (ascii ''newton''),
           rhs_units = Some (ascii ''kilogram * meter / second ** 2''),
           message = [0x2705] @ ascii '' Equation is dimensionally consistent: both sides are [newton].'',
           verbose = None\<rparr>"
  have el: "py_eval pyref w0 (strip (ascii ''F '')) (Symbols ref_base)
      = (Inr (VQuantity (PyInt 1) [(''newton'', 1)]), w0)"
    by (simp add: split_F_m_a eval_F)
  have er: "py_eval pyref w0 (strip (ascii '' m * a'')) (Symbols ref_base)
      = (Inr (VQuantity (PyInt 1) [(''kilogram'', 1), (''meter'', 1), (''second'', - 2)]), w0)"
    by (simp add: split_F_m_a eval_m_a)
  have c: "consistent ?r" by simp
  from success_message_names_lhs_units [OF split_F_m_a(1) el er check_F_m_a c]
  have "lhs_units ?r = Some (ascii ''newton'')
      \<and> rhs_units ?r = Some (ascii ''kilogram * meter / second ** 2'')
      \<and> message ?r = [0x2705] @ ascii '' Equation is dimensionally consistent: both sides are [''
                        @ ascii ''newton'' @ ascii ''].''"
    by (simp only: str_newton str_kg_m_s2)
  with check_F_m_a c split_F_m_a(1) show ?thesis by blast
qed

text \<open>
  \<open>F = m * a\<close>: the unit strings are \<open>newton\<close> and
  \<open>kilogram * meter / second ** 2\<close>, and the message says that both sides are
  \<open>newton\<close>.
\<close>

theorem both_sides_message_with_different_units:
  "check_equation_sanity pyref w0 (ascii ''F = m * a'') ref_base False =
     (Inr \<lparr>equation = ascii ''F = m * a'', consistent = True,
           lhs_units = Some (ascii ''newton''),
           rhs_units = Some (ascii ''kilogram * meter / second ** 2''),
           message = [0x2705] @ ascii '' Equation is dimensionally consistent: both sides are [newton].'',
           verbose = None\<rparr>, w0)
   \<and> ascii ''newton'' \<noteq> ascii ''kilogram * meter / second ** 2''"
proof -
  have "ascii ''newton'' \<noteq> ascii ''kilogram * meter / second ** 2''" by (simp add: ascii_def)
  with check_F_m_a show ?thesis by blast
qed



section \<open>The symbol table\<close>



text \<open>
  C6. \<open>build_context\<close> is the build from the (name, expression) pairs of the
  configuration: the terms between commas that contain \<open>=\<close>, each split at its first
  \<open>=\<close> with both parts trimmed. The terms without \<open>=\<close> change nothing: the loop over
  a list of terms is the loop over those that contain \<open>=\<close>. For a term that contains
  \<open>=\<close> the unpacking of the source does not fail, and after the trimming it yields that
  name and that expression.
\<close>

theorem build_context_terms:
  "build_context L w cfg = build_from_terms L w (config_terms (custom_variables cfg))
   \<and> config_terms (Some s)
       = map (\<lambda>t. (term_name t, term_expr t)) (filter (\<lambda>t. equals \<in> set t) (split_on comma s))
   \<and> custom_loop L w ts cv = custom_loop L w (filter (\<lambda>t. equals \<in> set t) ts) cv
   \<and> (equals \<in> set t \<longrightarrow>
        (\<exists>a b. unpack2 (split_max1 equals (strip t)) = Inr (a, b)
               \<and> strip a = term_name t \<and> strip b = term_expr t))"
proof -
  have "build_context L w cfg = build_from_terms L w (config_terms (custom_variables cfg))"
    by (rule build_context_from_terms)
  moreover have "custom_loop L w ts cv = custom_loop L w (filter (\<lambda>t. equals \<in> set t) ts) cv"
    by (rule custom_loop_filter)
  ultimately show ?thesis
    by (simp add: config_terms_def spec_terms_def unpack_term strip_unpacked_name strip_unpacked_expr)
qed

theorem build_context_terms_witness:
  "config_terms (Some (ascii ''t=meter, A = meter**2 ,junk,t=kilogram''))
     = [(ascii ''t'', ascii ''meter''), (ascii ''A'', ascii ''meter**2''),
        (ascii ''t'', ascii ''kilogram'')]
   \<and> build_context pyref w0 (config ''t=meter, A = meter**2 ,junk,t=kilogram'')
       = build_from_terms pyref w0
           [(ascii ''t'', ascii ''meter''), (ascii ''A'', ascii ''meter**2''),
            (ascii ''t'', ascii ''kilogram'')]
   \<and> custom_loop pyref w0
         [ascii ''t=meter'', ascii '' A = meter**2 '', ascii ''junk'', ascii ''t=kilogram''] []
       = custom_loop pyref w0 [ascii ''t=meter'', ascii '' A = meter**2 '', ascii ''t=kilogram''] []
   \<and> unpack2 (split_max1 equals (strip (ascii '' A = meter**2 '')))
       = Inr (ascii ''A '', ascii '' meter**2'')
   \<and> strip (ascii ''A '') = ascii ''A'' \<and> strip (ascii '' meter**2'') = ascii ''meter**2''"
proof -
  let ?s = "ascii ''t=meter, A = meter**2 ,junk,t=kilogram''"
  let ?ts = "[ascii ''t=meter'', ascii '' A = meter**2 '', ascii ''junk'', ascii ''t=kilogram'']"
  note T = build_context_terms [of pyref w0 "config ''t=meter, A = meter**2 ,junk,t=kilogram''"
      ?s ?ts "[]" "ascii '' A = meter**2 ''"]
  have cv: "custom_variables (config ''t=meter, A = meter**2 ,junk,t=kilogram'') = Some ?s"
    by (simp add: config_def)
  from T have "config_terms (Some ?s)
       = map (\<lambda>t. (term_name t, term_expr t)) (filter (\<lambda>t. equals \<in> set t) (split_on comma ?s))"
    by blast
  then have 1: "config_terms (Some ?s)
     = [(ascii ''t'', ascii ''meter''), (ascii ''A'', ascii ''meter**2''),
        (ascii ''t'', ascii ''kilogram'')]"
    by (simp add: term_name_def term_expr_def str_eval)
  from T have "build_context pyref w0 (config ''t=meter, A = meter**2 ,junk,t=kilogram'')
      = build_from_terms pyref w0
          (config_terms (custom_variables (config ''t=meter, A = meter**2 ,junk,t=kilogram'')))"
    by blast
  then have 2: "build_context pyref w0 (config ''t=meter, A = meter**2 ,junk,t=kilogram'')
       = build_from_terms pyref w0
           [(ascii ''t'', ascii ''meter''), (ascii ''A'', ascii ''meter**2''),
            (ascii ''t'', ascii ''kilogram'')]"
    by (simp only: cv 1)
  from T have "custom_loop pyref w0 ?ts [] = custom_loop pyref w0 (filter (\<lambda>t. equals \<in> set t) ?ts) []"
    by blast
  then have 3: "custom_loop pyref w0 ?ts []
       = custom_loop pyref w0 [ascii ''t=meter'', ascii '' A = meter**2 '', ascii ''t=kilogram''] []"
    by (simp add: str_eval)
  have 4: "unpack2 (split_max1 equals (strip (ascii '' A = meter**2 '')))
       = Inr (ascii ''A '', ascii '' meter**2'')"
    "strip (ascii ''A '') = ascii ''A''" "strip (ascii '' meter**2'') = ascii ''meter**2''"
    by (simp_all add: str_eval)
  from 1 2 3 4 show ?thesis by blast
qed




text \<open>
  C7. When every term of the configuration resolves, the table is the catalogue updated
  with the custom variables: the name of a term that no later term names again is bound
  to what the expression of the term resolved to, in place of any catalogue entry, and a
  name that no term binds keeps its catalogue entry.
\<close>

theorem custom_overrides_catalog:
  assumes "base_context L = Inr base"
    and "custom_variables cfg = Some s"
    and "custom_loop L w (split_on comma s) [] = (Inr cv, w')"
    and "split_on comma s = ts1 @ t # ts2"
    and "equals \<in> set t"
    and "\<forall>t'\<in>set ts2. equals \<in> set t' \<longrightarrow> term_name t' \<noteq> term_name t"
  shows "\<exists>cv1 w1 q w2. custom_loop L w ts1 [] = (Inr cv1, w1)
           \<and> resolve L w1 (term_expr t) = (Inr q, w2)
           \<and> build_context L w cfg = (Inr (dict_update base cv), [], w')
           \<and> map_of (dict_update base cv) (term_name t) = Some q
           \<and> (\<forall>n. map_of cv n = None \<longrightarrow> map_of (dict_update base cv) n = map_of base n)"
proof -
  from assms(3,4) obtain cv1 w1 where l1: "custom_loop L w ts1 [] = (Inr cv1, w1)"
    and l2: "custom_loop L w1 (t # ts2) cv1 = (Inr cv, w')"
    by (auto simp: custom_loop_append split: prod.splits sum.splits)
  from l2 assms(5) obtain q w2 where r: "resolve L w1 (term_expr t) = (Inr q, w2)"
    and l3: "custom_loop L w2 ts2 (AList.update (term_name t) q cv1) = (Inr cv, w')"
    by (auto simp: custom_loop_Cons split: prod.splits sum.splits)
  from custom_loop_other_names [OF l3 assms(6)]
  have q: "map_of cv (term_name t) = Some q" by (simp add: update_conv')
  have d: "distinct (map fst cv)"
    using custom_loop_distinct [OF assms(3)] by simp
  have b: "build_context L w cfg = (Inr (dict_update base cv), [], w')"
    using assms(1-3) by (simp add: build_context_alt)
  from l1 r b q d show ?thesis by (simp add: map_of_dict_update)
qed

theorem custom_overrides_catalog_witness:
  "build_context pyref w0 (config ''t=meter, A = meter**2 ,junk,t=kilogram'')
     = (Inr (dict_update ref_base
          [(ascii ''t'', VQuantity (PyInt 1) [(''kilogram'', 1)]),
           (ascii ''A'', VQuantity (PyInt 1) [(''meter'', 2)])]), [], w0)
   \<and> map_of ref_base (ascii ''t'') = Some (VQuantity (PyInt 1) [(''second'', 1)])
   \<and> map_of (dict_update ref_base
          [(ascii ''t'', VQuantity (PyInt 1) [(''kilogram'', 1)]),
           (ascii ''A'', VQuantity (PyInt 1) [(''meter'', 2)])]) (ascii ''t'')
       = Some (VQuantity (PyInt 1) [(''kilogram'', 1)])
   \<and> py_eval pyref w0 (ascii ''t'')
        (Symbols (dict_update ref_base
           [(ascii ''t'', VQuantity (PyInt 1) [(''kilogram'', 1)]),
            (ascii ''A'', VQuantity (PyInt 1) [(''meter'', 2)])]))
       = (Inr (VQuantity (PyInt 1) [(''kilogram'', 1)]), w0)"
proof -
  let ?cfg = "config ''t=meter, A = meter**2 ,junk,t=kilogram''"
  let ?cv = "[(ascii ''t'', VQuantity (PyInt 1) [(''kilogram'', 1)]),
           (ascii ''A'', VQuantity (PyInt 1) [(''meter'', 2)])]"
  have cv: "custom_variables ?cfg = Some (ascii ''t=meter, A = meter**2 ,junk,t=kilogram'')"
    by (simp add: config_def)
  have last: "\<forall>t'\<in>set []. equals \<in> set t' \<longrightarrow> term_name t' \<noteq> term_name (ascii ''t=kilogram'')"
    by simp
  from custom_overrides_catalog [OF ref_base_context cv loop_override split_examples(2)
      term_examples(3) last]
  obtain q w1 w2 where r: "resolve pyref w1 (term_expr (ascii ''t=kilogram'')) = (Inr q, w2)"
    and b: "build_context pyref w0 ?cfg = (Inr (dict_update ref_base ?cv), [], w0)"
    and m: "map_of (dict_update ref_base ?cv) (term_name (ascii ''t=kilogram'')) = Some q"
    by blast
  from r have "q = VQuantity (PyInt 1) [(''kilogram'', 1)]"
    by (simp add: term_examples resolve_units)
  with m have "map_of (dict_update ref_base ?cv) (ascii ''t'') = Some (VQuantity (PyInt 1) [(''kilogram'', 1)])"
    by (simp add: term_examples)
  with b catalog_entries(1) eval_override [of w0] show ?thesis by blast
qed

text \<open>
  A later term that fails discards the override: in \<open>t=meter,g=2*meter/second**2\<close>
  the term \<open>t=meter\<close> resolves, and \<open>t\<close> stays \<open>second\<close>.
\<close>

theorem resolved_override_is_discarded:
  "spec_terms (ascii ''t=meter,g=2*meter/second**2'')
     = [(ascii ''t'', ascii ''meter''), (ascii ''g'', ascii ''2*meter/second**2'')]
   \<and> resolve pyref w0 (ascii ''meter'') = (Inr (VQuantity (PyInt 1) [(''meter'', 1)]), w0)
   \<and> fst (build_context pyref w0 (config ''t=meter,g=2*meter/second**2'')) = Inr ref_base
   \<and> map_of ref_base (ascii ''t'') = Some (VQuantity (PyInt 1) [(''second'', 1)])"
proof -
  have "spec_terms (ascii ''t=meter,g=2*meter/second**2'')
     = [(ascii ''t'', ascii ''meter''), (ascii ''g'', ascii ''2*meter/second**2'')]"
    by (simp add: spec_terms_def term_name_def term_expr_def str_eval)
  moreover have "fst (build_context pyref w0 (config ''t=meter,g=2*meter/second**2'')) = Inr ref_base"
    by (simp add: build_ref loop_discarded)
  ultimately show ?thesis using resolve_units(1) [of w0] catalog_entries(1) by blast
qed




end
